theory Spec2Isabelle
  imports Main
begin

section \<open>Home-nursing booking backend: data model\<close>

text \<open>
  The repository is a set of Express route handlers over three Mongoose models.
  Each handler is embedded as a function from the document store, the caller's
  identity (\<open>req.userId\<close>, attached by the auth gate) and the request's inputs to
  a response and the store after the call.

  Identifiers of documents (\<open>_id\<close>, an ObjectId) are natural numbers; user and
  nurse identifiers are strings, as \<open>ServiceRequestSchema\<close> declares them.
  A field that a document may lack (\<open>undefined\<close> in JavaScript) is an option.
  Dates and the fee are only stored and compared, never computed with, and are
  integers here.
\<close>

type_synonym oid = nat

text \<open>What a \<open>try\<close> block of a handler can catch.\<close>

datatype exn = TypeError | CastError | ValidationError | DuplicateKey | MongoServerError

text \<open>
  \<open>res.status(c).json(body)\<close>: the status code with either an error body
  \<open>{message, error?}\<close> or the success body of the handler.
\<close>

datatype 'a body = Failure string "exn option" | Success (content: 'a)

type_synonym 'a response = "nat \<times> 'a body"

text \<open>\<open>ServiceRequestSchema\<close> (models/ServiceRequest): one field per schema path.\<close>

record service_request =
  sr_id :: oid
  user_id :: string
  nurse_id :: "string option"
  patient_ids :: "string list"
  estado :: string
  detalles :: "string option"
  fecha :: "int option"
  tarifa :: "int option"
  pago_realizado :: bool
  pago_liberado :: bool
  documentacion_servicio :: "string option"
  observaciones :: "string option"
  recomendaciones :: "string option"

text \<open>
  The Patient model is not among the sources; its paths are those the routes
  read and write: the four attributes selected by \<open>populate\<close> and the owner
  \<open>usuario_id\<close>.
\<close>

record patient =
  p_id :: oid
  name :: "string option"
  fecha_nacimiento :: "string option"
  genero :: "string option"
  descripcion :: "string option"
  usuario_id :: "string option"

text \<open>The two collections, each in its natural (insertion) order.\<close>

record store =
  Patients :: "patient list"
  ServiceRequests :: "service_request list"

text \<open>
  What the handlers rely on but the sources do not contain: how a string is cast
  to the \<open>_id\<close> type of a model (\<open>None\<close> is Mongoose's CastError) and which
  patients pass the validators of the Patient schema.
\<close>

record orm =
  castObjectId :: "string \<Rightarrow> oid option"
  castPatientId :: "string \<Rightarrow> oid option"
  validatePatient :: "patient \<Rightarrow> bool"

section \<open>Service requests: status update\<close>

text \<open>The letter a-acute of the messages, as its two UTF-8 bytes.\<close>

definition a_acute :: string where
  "a_acute = [CHR 0xC3, CHR 0xA1]"

definition estados :: "string list" where
  "estados = [''pendiente'', ''aceptada'', ''rechazada'', ''completada'']"

text \<open>
  \<open>ServiceRequest.findOneAndUpdate({_id, nurse_id}, {estado}, {new: true})\<close>:
  the first document with that identifier and that nurse gets the new status;
  the updated document is returned, or nothing when no document matches.
\<close>

fun findOneAndUpdate ::
  "oid \<Rightarrow> string \<Rightarrow> string \<Rightarrow> service_request list
    \<Rightarrow> service_request option \<times> service_request list" where
  "findOneAndUpdate i uid e [] = (None, [])"
| "findOneAndUpdate i uid e (r # rs) =
     (if sr_id r = i \<and> nurse_id r = Some uid
      then (Some (r\<lparr>estado := e\<rparr>), r\<lparr>estado := e\<rparr> # rs)
      else (case findOneAndUpdate i uid e rs of (d, rs') \<Rightarrow> (d, r # rs')))"

text \<open>
  \<open>router.put('/:id')\<close>. The body's \<open>estado\<close> is \<open>None\<close> when the body has no
  such string. The success body is the pair of the message and the document.
\<close>

definition put_status ::
  "orm \<Rightarrow> store \<Rightarrow> string \<Rightarrow> string \<Rightarrow> string option
    \<Rightarrow> (string \<times> service_request) response \<times> store" where
  "put_status M st uid idp body_estado =
     (case body_estado of
        None \<Rightarrow> ((400, Failure (''Estado inv'' @ a_acute @ ''lido'') None), st)
      | Some e \<Rightarrow>
          if e \<notin> set estados
          then ((400, Failure (''Estado inv'' @ a_acute @ ''lido'') None), st)
          else
            (case castObjectId M idp of
               None \<Rightarrow>
                 ((400, Failure ''Error al actualizar la solicitud'' (Some CastError)), st)
             | Some i \<Rightarrow>
                 (case findOneAndUpdate i uid e (ServiceRequests st) of
                    (None, rs') \<Rightarrow>
                      ((404, Failure ''Solicitud de servicio no encontrada'' None), st)
                  | (Some d, rs') \<Rightarrow>
                      ((200, Success (''Solicitud '' @ e @ '' exitosamente'', d)),
                       st\<lparr>ServiceRequests := rs'\<rparr>))))"

section \<open>Service requests: creation\<close>

text \<open>
  The fields \<open>router.post('/')\<close> takes from the JSON body; an absent field
  is \<open>None\<close>.
\<close>

record create_body =
  b_nurse_id :: "string option"
  b_patient_ids :: "string list option"
  b_detalles :: "string option"
  b_fecha :: "int option"
  b_tarifa :: "int option"

text \<open>
  \<open>Patient.find({ _id: { $in: patient_ids }, usuario_id: req.userId })\<close>:
  every listed identifier is cast to the model's \<open>_id\<close> type (one failure fails
  the query), and each stored patient that is owned by the caller and whose
  identifier is listed is returned once.
\<close>

definition Patient_find_owned :: "orm \<Rightarrow> store \<Rightarrow> string list \<Rightarrow> string \<Rightarrow> exn + patient list" where
  "Patient_find_owned M st ids uid =
     (case those (map (castPatientId M) ids) of
        None \<Rightarrow> Inl CastError
      | Some os \<Rightarrow>
          Inr (filter (\<lambda>p. p_id p \<in> set os \<and> usuario_id p = Some uid) (Patients st)))"

text \<open>
  \<open>new ServiceRequest({user_id, nurse_id, patient_ids, detalles, fecha, tarifa})\<close>:
  the driver supplies the fresh \<open>_id\<close>; the schema supplies the defaults of the
  paths the handler does not set.
\<close>

definition new_ServiceRequest :: "oid \<Rightarrow> string \<Rightarrow> create_body \<Rightarrow> string list \<Rightarrow> service_request" where
  "new_ServiceRequest new_id uid b pids =
     \<lparr> sr_id = new_id,
       user_id = uid,
       nurse_id = b_nurse_id b,
       patient_ids = pids,
       estado = ''pendiente'',
       detalles = b_detalles b,
       fecha = b_fecha b,
       tarifa = b_tarifa b,
       pago_realizado = False,
       pago_liberado = False,
       documentacion_servicio = None,
       observaciones = None,
       recomendaciones = None \<rparr>"

text \<open>
  The \<open>required: true\<close> paths of the schema: \<open>user_id\<close>, \<open>nurse_id\<close>, every
  element of \<open>patient_ids\<close> (a required string must be non-empty), \<open>fecha\<close> and
  \<open>tarifa\<close>.
\<close>

definition validate_ServiceRequest :: "service_request \<Rightarrow> bool" where
  "validate_ServiceRequest r \<longleftrightarrow>
     user_id r \<noteq> [] \<and>
     (case nurse_id r of None \<Rightarrow> False | Some n \<Rightarrow> n \<noteq> []) \<and>
     [] \<notin> set (patient_ids r) \<and>
     fecha r \<noteq> None \<and> tarifa r \<noteq> None"

text \<open>
  \<open>newRequest.save()\<close>: validation first, then the insert, which the unique index
  on \<open>_id\<close> refuses for an identifier already stored.
\<close>

definition save_ServiceRequest :: "store \<Rightarrow> service_request \<Rightarrow> exn + store" where
  "save_ServiceRequest st r =
     (if \<not> validate_ServiceRequest r then Inl ValidationError
      else if sr_id r \<in> set (map sr_id (ServiceRequests st)) then Inl DuplicateKey
      else Inr (st\<lparr>ServiceRequests := ServiceRequests st @ [r]\<rparr>))"

text \<open>
  \<open>router.post('/')\<close> of the service requests. Without \<open>patient_ids\<close> in the body,
  \<open>patient_ids.length\<close> throws inside the \<open>try\<close>.
\<close>

definition create_request ::
  "orm \<Rightarrow> store \<Rightarrow> oid \<Rightarrow> string \<Rightarrow> create_body \<Rightarrow> service_request response \<times> store" where
  "create_request M st new_id uid b =
     (case b_patient_ids b of
        None \<Rightarrow>
          ((400, Failure ''Error al crear la solicitud de servicio'' (Some TypeError)), st)
      | Some pids \<Rightarrow>
          (case Patient_find_owned M st pids uid of
             Inl e \<Rightarrow>
               ((400, Failure ''Error al crear la solicitud de servicio'' (Some e)), st)
           | Inr validPatients \<Rightarrow>
               if length validPatients \<noteq> length pids
               then ((403, Failure (''Acceso denegado a uno o m'' @ a_acute
                                     @ ''s pacientes seleccionados'') None), st)
               else
                 (case save_ServiceRequest st (new_ServiceRequest new_id uid b pids) of
                    Inl e \<Rightarrow>
                      ((400, Failure ''Error al crear la solicitud de servicio'' (Some e)), st)
                  | Inr st' \<Rightarrow>
                      ((201, Success (new_ServiceRequest new_id uid b pids)), st'))))"

section \<open>Paginated lists\<close>

text \<open>
  The query parameters \<open>page\<close> and \<open>limit\<close> are decimal integers. The handlers
  use them only as JavaScript numbers (\<open>page - 1\<close>, \<open>* limit\<close>, \<open>Number(page)\<close>,
  \<open>Number(limit)\<close>), that is as double-precision values: an integer of at most
  53 bits is itself, a longer one is rounded to 53 significant bits (to the
  nearest, ties to the even one), and from \<open>2 ^ 1024\<close> on the value is infinite.
  Zero has no sign here: the handlers and the store treat \<open>-0\<close> as \<open>0\<close>.
  \<open>bitlen n\<close> is the number of binary digits of \<open>n\<close>, and \<open>round53\<close> rounds a
  magnitude.
\<close>

datatype jsnum = Fin int | PosInf | NegInf | NaN

function bitlen :: "int \<Rightarrow> nat" where
  "bitlen n = (if n \<le> 0 then 0 else Suc (bitlen (n div 2)))"
  by pat_completeness auto
termination
  by (relation "measure nat") auto

declare bitlen.simps [simp del]

definition round53 :: "int \<Rightarrow> int" where
  "round53 n =
     (if n < 2 ^ 53 then n
      else (let q = 2 ^ (bitlen n - 53); m = n div q; r = n mod q
            in if q < 2 * r \<or> (2 * r = q \<and> odd m) then (m + 1) * q else m * q))"

text \<open>\<open>Number(s)\<close> for the decimal string \<open>s\<close> of the integer \<open>n\<close>.\<close>

definition js_Number :: "int \<Rightarrow> jsnum" where
  "js_Number n =
     (let r = round53 \<bar>n\<bar>
      in if 2 ^ 1024 \<le> r then (if n < 0 then NegInf else PosInf)
         else Fin (if n < 0 then - r else r))"

text \<open>\<open>x - 1\<close> and \<open>x * y\<close>: the exact result, rounded.\<close>

definition js_minus_one :: "jsnum \<Rightarrow> jsnum" where
  "js_minus_one x = (case x of Fin a \<Rightarrow> js_Number (a - 1) | _ \<Rightarrow> x)"

fun js_times :: "jsnum \<Rightarrow> jsnum \<Rightarrow> jsnum" where
  "js_times NaN y = NaN"
| "js_times x NaN = NaN"
| "js_times (Fin a) (Fin b) = js_Number (a * b)"
| "js_times (Fin a) PosInf = (if a = 0 then NaN else if 0 < a then PosInf else NegInf)"
| "js_times (Fin a) NegInf = (if a = 0 then NaN else if 0 < a then NegInf else PosInf)"
| "js_times PosInf (Fin b) = (if b = 0 then NaN else if 0 < b then PosInf else NegInf)"
| "js_times NegInf (Fin b) = (if b = 0 then NaN else if 0 < b then NegInf else PosInf)"
| "js_times PosInf PosInf = PosInf"
| "js_times PosInf NegInf = NegInf"
| "js_times NegInf PosInf = NegInf"
| "js_times NegInf NegInf = PosInf"

text \<open>
  \<open>find(filter).skip(s).limit(l)\<close> on the documents matching the filter, with
  MongoDB's cursor semantics: a negative skip is refused by the server, a limit
  of 0 is no limit, and a negative limit returns at most its absolute value.
  A skip or a limit that is not an integer of 64 bits (\<open>2 ^ 63\<close> or more,
  infinite or not a number) is refused as well.
\<close>

definition skip_limit :: "jsnum \<Rightarrow> jsnum \<Rightarrow> 'a list \<Rightarrow> exn + 'a list" where
  "skip_limit skip limit xs =
     (case (skip, limit) of
        (Fin s, Fin l) \<Rightarrow>
          if s < 0 \<or> 2 ^ 63 \<le> s \<or> 2 ^ 63 \<le> \<bar>l\<bar> then Inl MongoServerError
          else Inr (if l = 0 then drop (nat s) xs else take (nat \<bar>l\<bar>) (drop (nat s) xs))
      | _ \<Rightarrow> Inl MongoServerError)"

text \<open>
  The success body of both lists; \<open>items\<close> is \<open>patients\<close> or \<open>requests\<close>. A
  \<open>page\<close> or \<open>limit\<close> that is not finite is written \<open>null\<close> in the JSON text.
\<close>

record 'a listing =
  total :: nat
  page :: jsnum
  limit :: jsnum
  items :: "'a list"

text \<open>
  A plain object (\<open>toObject()\<close>) is the list of its keys with their values:
  \<open>_id\<close>, which the store keeps first, the paths the document has, and the
  version key \<open>__v\<close>, which is 0 for a document that was saved and never
  modified (the routes have no update of a patient).
\<close>

datatype jvalue = JId oid | JString string | JNumber int

definition field :: "string \<Rightarrow> string option \<Rightarrow> (string \<times> jvalue) list" where
  "field k v = (case v of None \<Rightarrow> [] | Some s \<Rightarrow> [(k, JString s)])"

definition toObject :: "patient \<Rightarrow> (string \<times> jvalue) list" where
  "toObject p =
     (''_id'', JId (p_id p)) # field ''name'' (name p)
       @ field ''fecha_nacimiento'' (fecha_nacimiento p)
       @ field ''genero'' (genero p)
       @ field ''descripcion'' (descripcion p)
       @ field ''usuario_id'' (usuario_id p)
       @ [(''__v'', JNumber 0)]"

text \<open>\<open>const { _id, ...patientData } = obj\<close>: every key but \<open>_id\<close>.\<close>

definition without_id :: "(string \<times> jvalue) list \<Rightarrow> (string \<times> jvalue) list" where
  "without_id obj = filter (\<lambda>kv. fst kv \<noteq> ''_id'') obj"

text \<open>
  \<open>router.get('/')\<close> of the patients. The query parameters \<open>page\<close> and \<open>limit\<close>
  default to the numbers 1 and 10 when absent.
\<close>

definition get_patients ::
  "store \<Rightarrow> string \<Rightarrow> int option \<Rightarrow> int option \<Rightarrow> (string \<times> jvalue) list listing response" where
  "get_patients st uid q_page q_limit =
     (let page = (case q_page of None \<Rightarrow> Fin 1 | Some p \<Rightarrow> js_Number p);
          limit = (case q_limit of None \<Rightarrow> Fin 10 | Some l \<Rightarrow> js_Number l);
          skip = js_times (js_minus_one page) limit;
          owned = filter (\<lambda>p. usuario_id p = Some uid) (Patients st)
      in case skip_limit skip limit owned of
           Inl e \<Rightarrow> (500, Failure ''Error al obtener los pacientes'' (Some e))
         | Inr patients \<Rightarrow>
             (200, Success \<lparr> total = length owned, page = page, limit = limit,
                             items = map (\<lambda>patient. without_id (toObject patient)) patients \<rparr>))"

text \<open>
  The filter of the service-request list: the caller is the requester or the
  nurse, and \<open>if (estado) filter.estado = estado\<close> adds the status when the
  parameter is a non-empty string.
\<close>

definition request_filter :: "string \<Rightarrow> string option \<Rightarrow> service_request \<Rightarrow> bool" where
  "request_filter uid q_estado r \<longleftrightarrow>
     (user_id r = uid \<or> nurse_id r = Some uid) \<and>
     (case q_estado of
        None \<Rightarrow> True
      | Some e \<Rightarrow> if e = [] then True else estado r = e)"

text \<open>
  \<open>router.get('/')\<close> of the service requests. What \<open>populate\<close> makes of a found
  request depends on reference declarations that the schema does not carry; it
  is the parameter \<open>populate\<close>, applied to each request of the page.
\<close>

definition get_requests ::
  "(store \<Rightarrow> service_request \<Rightarrow> 'v) \<Rightarrow> store \<Rightarrow> string \<Rightarrow> string option \<Rightarrow> int option \<Rightarrow> int option
     \<Rightarrow> 'v listing response" where
  "get_requests populate st uid q_estado q_page q_limit =
     (let page = (case q_page of None \<Rightarrow> Fin 1 | Some p \<Rightarrow> js_Number p);
          limit = (case q_limit of None \<Rightarrow> Fin 10 | Some l \<Rightarrow> js_Number l);
          skip = js_times (js_minus_one page) limit;
          matching = filter (request_filter uid q_estado) (ServiceRequests st)
      in case skip_limit skip limit matching of
           Inl e \<Rightarrow> (500, Failure ''Error al obtener las solicitudes'' (Some e))
         | Inr requests \<Rightarrow>
             (200, Success \<lparr> total = length matching, page = page, limit = limit,
                             items = map (populate st) requests \<rparr>))"

section \<open>Patients: creation\<close>

record patient_body =
  b_name :: "string option"
  b_fecha_nacimiento :: "string option"
  b_genero :: "string option"
  b_descripcion :: "string option"
  b_usuario_id :: "string option"

text \<open>\<open>new Patient(obj)\<close> with the \<open>_id\<close> the driver supplies.\<close>

definition new_Patient :: "oid \<Rightarrow> patient_body \<Rightarrow> patient" where
  "new_Patient new_id obj =
     \<lparr> p_id = new_id, name = b_name obj, fecha_nacimiento = b_fecha_nacimiento obj,
       genero = b_genero obj, descripcion = b_descripcion obj,
       usuario_id = b_usuario_id obj \<rparr>"

definition save_Patient :: "orm \<Rightarrow> store \<Rightarrow> patient \<Rightarrow> exn + store" where
  "save_Patient M st p =
     (if \<not> validatePatient M p then Inl ValidationError
      else if p_id p \<in> set (map p_id (Patients st)) then Inl DuplicateKey
      else Inr (st\<lparr>Patients := Patients st @ [p]\<rparr>))"

text \<open>
  \<open>router.post('/')\<close> of the patients; \<open>{ ...req.body, usuario_id: req.userId }\<close>
  is the body with its owner replaced.
\<close>

definition create_patient ::
  "orm \<Rightarrow> store \<Rightarrow> oid \<Rightarrow> string \<Rightarrow> patient_body \<Rightarrow> (string \<times> jvalue) list response \<times> store" where
  "create_patient M st new_id uid b =
     (let newPatient = new_Patient new_id (b\<lparr>b_usuario_id := Some uid\<rparr>)
      in case save_Patient M st newPatient of
           Inl e \<Rightarrow> ((400, Failure ''Error al crear el paciente'' (Some e)), st)
         | Inr st' \<Rightarrow> ((201, Success (without_id (toObject newPatient))), st'))"

section \<open>The auth gate\<close>

record request =
  authorization :: "string option"
  userId :: "string option"

record payload =
  payload_userId :: string

datatype gate = SendStatus nat | Next request

text \<open>\<open>s.split(' ')\<close>: the pieces between single spaces, empty ones included.\<close>

fun split_sp :: "string \<Rightarrow> string list" where
  "split_sp [] = [[]]"
| "split_sp (c # cs) =
     (if c = CHR '' '' then [] # split_sp cs
      else (case split_sp cs of [] \<Rightarrow> [[c]] | w # ws \<Rightarrow> (c # w) # ws))"

text \<open>
  \<open>req.headers['authorization'] && req.headers['authorization'].split(' ')[1]\<close>:
  an absent header gives \<open>undefined\<close>, an empty one gives itself, any other the
  second piece, if there is one.
\<close>

definition bearer_token :: "request \<Rightarrow> string option" where
  "bearer_token req =
     (case authorization req of
        None \<Rightarrow> None
      | Some h \<Rightarrow>
          if h = [] then Some []
          else (case split_sp h of p0 # p1 # ps \<Rightarrow> Some p1 | _ \<Rightarrow> None))"

text \<open>
  \<open>authenticateToken\<close>; \<open>verify\<close> is \<open>jwt.verify\<close> with the fixed secret, \<open>None\<close>
  when the signature is invalid or the token expired.
\<close>

definition authenticateToken :: "(string \<Rightarrow> payload option) \<Rightarrow> request \<Rightarrow> gate" where
  "authenticateToken verify req =
     (case bearer_token req of
        None \<Rightarrow> SendStatus 401
      | Some token \<Rightarrow>
          if token = [] then SendStatus 401
          else (case verify token of
                  None \<Rightarrow> SendStatus 403
                | Some user \<Rightarrow> Next (req\<lparr>userId := Some (payload_userId user)\<rparr>)))"

section \<open>A sample deployment\<close>

text \<open>
  A small store on which the handlers are run below: user A owns the patients
  Ana and Luis, user B owns Bea, and user A has one request, assigned to nurse N.
\<close>

definition orm0 :: orm where
  "orm0 = \<lparr> castObjectId = map_of [(''a1'', 1), (''a2'', 2)],
            castPatientId = map_of [(''p1'', 1), (''p2'', 2), (''p3'', 3)],
            validatePatient = (\<lambda>p. name p \<noteq> None) \<rparr>"

definition ana :: patient where
  "ana = \<lparr> p_id = 1, name = Some ''Ana'', fecha_nacimiento = Some ''1990-01-01'',
          genero = Some ''F'', descripcion = Some ''-'', usuario_id = Some ''userA'' \<rparr>"

definition luis :: patient where
  "luis = \<lparr> p_id = 2, name = Some ''Luis'', fecha_nacimiento = Some ''1985-05-05'',
           genero = Some ''M'', descripcion = None, usuario_id = Some ''userA'' \<rparr>"

definition bea :: patient where
  "bea = \<lparr> p_id = 3, name = Some ''Bea'', fecha_nacimiento = Some ''1970-07-07'',
          genero = Some ''F'', descripcion = None, usuario_id = Some ''userB'' \<rparr>"

definition req1 :: service_request where
  "req1 = \<lparr> sr_id = 1, user_id = ''userA'', nurse_id = Some ''nurseN'',
           patient_ids = [''p1''], estado = ''pendiente'', detalles = Some ''cura'',
           fecha = Some 20250101, tarifa = Some 300, pago_realizado = False,
           pago_liberado = False, documentacion_servicio = None,
           observaciones = None, recomendaciones = None \<rparr>"

definition store0 :: store where
  "store0 = \<lparr> Patients = [ana, luis, bea], ServiceRequests = [req1] \<rparr>"

definition body0 :: create_body where
  "body0 = \<lparr> b_nurse_id = Some ''nurseN'', b_patient_ids = Some [''p1'', ''p2''],
            b_detalles = None, b_fecha = Some 20250202, b_tarifa = Some 250 \<rparr>"

text \<open>Two requests of user A, the second one completed.\<close>

definition req_done :: service_request where
  "req_done = req1\<lparr>sr_id := 2, estado := ''completada''\<rparr>"

definition store1 :: store where
  "store1 = store0\<lparr>ServiceRequests := [req1, req_done]\<rparr>"

text \<open>A body for a new patient that names user B as its owner.\<close>

definition eva_body :: patient_body where
  "eva_body = \<lparr> b_name = Some ''Eva'', b_fecha_nacimiento = None, b_genero = Some ''F'',
      b_descripcion = None, b_usuario_id = Some ''userB'' \<rparr>"

text \<open>A verifier that accepts a single token, issued to user A.\<close>

definition verify0 :: "string \<Rightarrow> payload option" where
  "verify0 = map_of [(''tokA'', \<lparr>payload_userId = ''userA''\<rparr>)]"


section \<open>Facts about the persistence operations\<close>

lemma findOneAndUpdate_None:
  "fst (findOneAndUpdate i uid e rs) = None \<longleftrightarrow> (\<forall>r\<in>set rs. \<not> (sr_id r = i \<and> nurse_id r = Some uid))"
  by (induction rs) (auto split: prod.splits)

lemma findOneAndUpdate_None_same:
  "fst (findOneAndUpdate i uid e rs) = None \<Longrightarrow> snd (findOneAndUpdate i uid e rs) = rs"
  by (induction rs) (auto split: prod.splits if_splits)

lemma findOneAndUpdate_Some:
  "findOneAndUpdate i uid e rs = (Some d, rs') \<Longrightarrow>
     \<exists>k < length rs. sr_id (rs ! k) = i \<and> nurse_id (rs ! k) = Some uid \<and>
        d = (rs ! k)\<lparr>estado := e\<rparr> \<and> rs' = rs[k := d]"
proof (induction rs arbitrary: d rs')
  case Nil
  then show ?case by simp
next
  case (Cons r rs)
  show ?case
  proof (cases "sr_id r = i \<and> nurse_id r = Some uid")
    case True
    with Cons.prems have "d = r\<lparr>estado := e\<rparr>" "rs' = d # rs" by auto
    with True have "0 < length (r # rs) \<and> sr_id ((r # rs) ! 0) = i \<and> nurse_id ((r # rs) ! 0) = Some uid \<and>
        d = ((r # rs) ! 0)\<lparr>estado := e\<rparr> \<and> rs' = (r # rs)[0 := d]" by simp
    then show ?thesis by blast
  next
    case False
    with Cons.prems obtain rs'' where a: "findOneAndUpdate i uid e rs = (Some d, rs'')" and b: "rs' = r # rs''"
      by (auto split: prod.splits)
    from Cons.IH[OF a] obtain k where "k < length rs" "sr_id (rs ! k) = i" "nurse_id (rs ! k) = Some uid"
        "d = (rs ! k)\<lparr>estado := e\<rparr>" "rs'' = rs[k := d]" by blast
    with b have "Suc k < length (r # rs) \<and> sr_id ((r # rs) ! Suc k) = i \<and> nurse_id ((r # rs) ! Suc k) = Some uid \<and>
        d = ((r # rs) ! Suc k)\<lparr>estado := e\<rparr> \<and> rs' = (r # rs)[Suc k := d]" by simp
    then show ?thesis by blast
  qed
qed

lemma estado_invalido:
  "(\<forall>e. body_estado = Some e \<longrightarrow> e \<notin> set estados) \<Longrightarrow>
   put_status M st uid idp body_estado = ((400, Failure (''Estado inv'' @ a_acute @ ''lido'') None), st)"
  by (cases body_estado) (simp_all add: put_status_def)

lemma put_status_valid_not_invalid:
  "e \<in> set estados \<Longrightarrow> fst (put_status M st uid idp (Some e)) \<noteq> (400, Failure (''Estado inv'' @ a_acute @ ''lido'') None)"
  by (auto simp: put_status_def split: option.splits prod.splits)

lemma put_status_found:
  assumes "e \<in> set estados" "castObjectId M idp = Some i" "r \<in> set (ServiceRequests st)"
    "sr_id r = i" "nurse_id r = Some uid"
  shows "\<exists>d st'. put_status M st uid idp (Some e) = ((200, Success (''Solicitud '' @ e @ '' exitosamente'', d)), st') \<and> estado d = e"
proof -
  from assms have "fst (findOneAndUpdate i uid e (ServiceRequests st)) \<noteq> None"
    by (auto simp: findOneAndUpdate_None)
  then obtain d rs' where f: "findOneAndUpdate i uid e (ServiceRequests st) = (Some d, rs')"
    by (cases "findOneAndUpdate i uid e (ServiceRequests st)") auto
  from findOneAndUpdate_Some[OF f] have "estado d = e" by auto
  with f assms show ?thesis by (simp add: put_status_def)
qed


lemma distinct_map_unique:
  "distinct (map f xs) \<Longrightarrow> x \<in> set xs \<Longrightarrow> y \<in> set xs \<Longrightarrow> f x = f y \<Longrightarrow> x = y"
  by (simp add: distinct_map inj_on_def)

lemma put_status_never_200_unless_match:
  assumes "\<forall>r\<in>set (ServiceRequests st). \<not> (castObjectId M idp = Some (sr_id r) \<and> nurse_id r = Some uid)"
  shows "fst (fst (put_status M st uid idp be)) \<noteq> 200 \<and> snd (put_status M st uid idp be) = st"
proof (cases "\<exists>e i. be = Some e \<and> e \<in> set estados \<and> castObjectId M idp = Some i")
  case False
  then show ?thesis by (auto simp: put_status_def split: option.splits)
next
  case True
  then obtain e i where h: "be = Some e" "e \<in> set estados" "castObjectId M idp = Some i" by blast
  with assms have "fst (findOneAndUpdate i uid e (ServiceRequests st)) = None"
    by (auto simp: findOneAndUpdate_None)
  with h show ?thesis by (auto simp: put_status_def split: prod.splits)
qed

lemma put_status_404:
  assumes "\<forall>r\<in>set (ServiceRequests st). \<not> (sr_id r = i \<and> nurse_id r = Some uid)"
    and "castObjectId M idp = Some i" and "e \<in> set estados"
  shows "put_status M st uid idp (Some e) = ((404, Failure ''Solicitud de servicio no encontrada'' None), st)"
proof -
  from assms have "fst (findOneAndUpdate i uid e (ServiceRequests st)) = None"
    by (auto simp: findOneAndUpdate_None)
  with assms show ?thesis by (auto simp: put_status_def split: prod.splits)
qed

lemma those_map_Some:
  "those (map f xs) = Some ys \<Longrightarrow> ys = map (\<lambda>x. the (f x)) xs"
  by (induction xs arbitrary: ys) (auto split: option.splits)

lemma filter_length_le_card:
  assumes "distinct (map f xs)" and "finite S" and "\<forall>x\<in>set xs. P x \<longrightarrow> f x \<in> S"
  shows "length (filter P xs) \<le> card S"
proof -
  have d: "distinct (map f (filter P xs))" using assms(1) by (rule distinct_map_filter)
  have "length (filter P xs) = length (map f (filter P xs))" by simp
  also have "\<dots> = card (set (map f (filter P xs)))" by (rule distinct_card[OF d, symmetric])
  also have "\<dots> \<le> card S" using assms(2,3) by (intro card_mono) auto
  finally show ?thesis .
qed

lemma forbidden_branch:
  assumes "b_patient_ids b = Some pids" and "those (map (castPatientId M) pids) = Some os"
    and "length (filter (\<lambda>p. p_id p \<in> set os \<and> usuario_id p = Some uid) (Patients st)) \<noteq> length pids"
  shows "create_request M st new_id uid b
           = ((403, Failure (''Acceso denegado a uno o m'' @ a_acute @ ''s pacientes seleccionados'') None), st)"
  using assms by (simp add: create_request_def Patient_find_owned_def)

lemma owned_count_missing:
  assumes "those (map (castPatientId M) pids) = Some os" and "distinct (map p_id (Patients st))"
    and "q \<in> set os" and "\<forall>p\<in>set (Patients st). p_id p = q \<longrightarrow> usuario_id p \<noteq> Some uid"
  shows "length (filter (\<lambda>p. p_id p \<in> set os \<and> usuario_id p = Some uid) (Patients st)) < length pids"
proof -
  have "length (filter (\<lambda>p. p_id p \<in> set os \<and> usuario_id p = Some uid) (Patients st)) \<le> card (set os - {q})"
    using assms(2,4) by (intro filter_length_le_card[where f = p_id]) auto
  also have "\<dots> < card (set os)" using assms(3) by (intro card_Diff1_less) simp_all
  also have "\<dots> \<le> length os" by (rule card_length)
  also have "\<dots> = length pids" using those_map_Some[OF assms(1)] by simp
  finally show ?thesis .
qed

lemma owned_count_duplicates:
  assumes "those (map (castPatientId M) pids) = Some os" and "distinct (map p_id (Patients st))"
    and "\<not> distinct pids"
  shows "length (filter (\<lambda>p. p_id p \<in> set os \<and> usuario_id p = Some uid) (Patients st)) < length pids"
proof -
  have os: "os = map (\<lambda>x. the (castPatientId M x)) pids" using those_map_Some[OF assms(1)] .
  have nd: "\<not> distinct os" using assms(3) unfolding os by (auto simp: distinct_map)
  have "length (filter (\<lambda>p. p_id p \<in> set os \<and> usuario_id p = Some uid) (Patients st)) \<le> card (set os)"
    using assms(2) by (intro filter_length_le_card[where f = p_id]) auto
  also have "\<dots> < length os" using nd card_distinct[of os] card_length[of os] by (cases "card (set os) = length os") auto
  also have "\<dots> = length pids" using os by simp
  finally show ?thesis .
qed

lemma create_request_201:
  assumes "fst (fst (create_request M st new_id uid b)) = 201"
  shows "\<exists>pids. b_patient_ids b = Some pids \<and>
           create_request M st new_id uid b
             = ((201, Success (new_ServiceRequest new_id uid b pids)),
                st\<lparr>ServiceRequests := ServiceRequests st @ [new_ServiceRequest new_id uid b pids]\<rparr>)"
  using assms
  by (auto simp: create_request_def save_ServiceRequest_def split: option.splits sum.splits if_splits)

lemma without_id_no_id: "''_id'' \<notin> fst ` set (without_id obj)"
  by (auto simp: without_id_def)

lemma without_id_toObject: "without_id (toObject p) = tl (toObject p)"
  by (simp add: without_id_def toObject_def field_def split: option.splits)

lemma create_patient_201:
  assumes "fst (fst (create_patient M st new_id uid b)) = 201"
  shows "create_patient M st new_id uid b
           = ((201, Success (without_id (toObject (new_Patient new_id (b\<lparr>b_usuario_id := Some uid\<rparr>))))),
              st\<lparr>Patients := Patients st @ [new_Patient new_id (b\<lparr>b_usuario_id := Some uid\<rparr>)]\<rparr>)"
  using assms
  by (auto simp: create_patient_def save_Patient_def Let_def split: sum.splits if_splits)

lemma owner_in_object: "usuario_id p = Some uid \<Longrightarrow> (''usuario_id'', JString uid) \<in> set (without_id (toObject p))"
  by (simp add: without_id_def toObject_def field_def)

lemma get_patients_items_stripped:
  "get_patients st uid q_page q_limit = (200, Success l) \<Longrightarrow> obj \<in> set (items l) \<Longrightarrow> ''_id'' \<notin> fst ` set obj"
  by (auto simp: get_patients_def Let_def without_id_def split: sum.splits)

lemma those_map_None:
  "those (map f xs) = None \<longleftrightarrow> (\<exists>x\<in>set xs. f x = None)"
  by (induction xs) (auto split: option.splits)

lemma cast_fail_branch:
  assumes "b_patient_ids b = Some pids" and "\<exists>s\<in>set pids. castPatientId M s = None"
  shows "create_request M st new_id uid b
           = ((400, Failure ''Error al crear la solicitud de servicio'' (Some CastError)), st)"
proof -
  from assms(2) have "those (map (castPatientId M) pids) = None" by (simp add: those_map_None)
  with assms(1) show ?thesis by (simp add: create_request_def Patient_find_owned_def)
qed

lemma all_cast:
  assumes "\<forall>s\<in>set pids. castPatientId M s \<noteq> None"
  shows "\<exists>os. those (map (castPatientId M) pids) = Some os"
proof (cases "those (map (castPatientId M) pids)")
  case None
  then obtain x where "x \<in> set pids" "castPatientId M x = None"
    unfolding those_map_None by blast
  with assms show ?thesis by blast
next
  case (Some os)
  then show ?thesis by blast
qed

lemma round53_safe: "n < 2 ^ 53 \<Longrightarrow> round53 n = n"
  by (simp add: round53_def)

lemma js_Number_safe: "\<bar>n\<bar> < 2 ^ 53 \<Longrightarrow> js_Number n = Fin n"
proof -
  assume a: "\<bar>n\<bar> < 2 ^ 53"
  then have r: "round53 \<bar>n\<bar> = \<bar>n\<bar>" by (rule round53_safe)
  have "(2::int) ^ 53 < 2 ^ 1024" by simp
  with a have "\<not> 2 ^ 1024 \<le> \<bar>n\<bar>" by linarith
  with r show ?thesis by (auto simp: js_Number_def Let_def)
qed

lemma js_skip_safe:
  assumes "\<bar>P\<bar> < 2 ^ 53" and "\<bar>L\<bar> < 2 ^ 53" and "\<bar>(P - 1) * L\<bar> < 2 ^ 53"
  shows "js_times (js_minus_one (js_Number P)) (js_Number L) = Fin ((P - 1) * L)"
proof (cases "P = - (2 ^ 53) + 1")
  case True
  with assms(3) have "L = 0" by (cases "L = 0") (auto simp: abs_mult)
  moreover have "js_Number (- (2 ^ 53) + 1 - 1) = Fin (- 9007199254740992)" by code_simp
  ultimately show ?thesis using True assms(1) by (simp add: js_Number_safe js_minus_one_def)
next
  case False
  with assms(1) have "\<bar>P - 1\<bar> < 2 ^ 53" by linarith
  with assms show ?thesis by (simp add: js_Number_safe js_minus_one_def)
qed

lemma skip_limit_Fin:
  assumes "0 \<le> s" and "s < 2 ^ 53" and "\<bar>l\<bar> < 2 ^ 53"
  shows "skip_limit (Fin s) (Fin l) xs
           = Inr (if l = 0 then drop (nat s) xs else take (nat \<bar>l\<bar>) (drop (nat s) xs))"
proof -
  have "(2::int) ^ 53 < 2 ^ 63" by simp
  with assms have "\<not> (s < 0 \<or> 2 ^ 63 \<le> s \<or> 2 ^ 63 \<le> \<bar>l\<bar>)" by linarith
  then show ?thesis unfolding skip_limit_def by simp
qed

lemma skip_limit_negative: "s < 0 \<Longrightarrow> skip_limit (Fin s) (Fin l) xs = Inl MongoServerError"
  by (simp add: skip_limit_def)

lemma query_number:
  "P = (case q of None \<Rightarrow> d | Some p \<Rightarrow> p) \<Longrightarrow> \<bar>P\<bar> < 2 ^ 53 \<Longrightarrow>
   (case q of None \<Rightarrow> Fin d | Some p \<Rightarrow> js_Number p) = Fin P"
  by (cases q) (simp_all add: js_Number_safe)


lemma request_filter_estado:
  "e \<noteq> [] \<Longrightarrow> filter (request_filter uid (Some e)) rs
     = filter (\<lambda>r. (user_id r = uid \<or> nurse_id r = Some uid) \<and> estado r = e) rs"
  by (induction rs) (auto simp: request_filter_def)

lemma request_filter_no_estado:
  "q_estado = None \<or> q_estado = Some [] \<Longrightarrow> filter (request_filter uid q_estado) rs
     = filter (\<lambda>r. user_id r = uid \<or> nurse_id r = Some uid) rs"
  by (induction rs) (auto simp: request_filter_def)

lemma get_requests_codes:
  "fst (get_requests populate st uid q_estado q_page q_limit) = 200 \<or>
   fst (get_requests populate st uid q_estado q_page q_limit) = 500"
  by (simp add: get_requests_def Let_def split: sum.splits)


lemma get_requests_safe:
  assumes "P = (case q_page of None \<Rightarrow> 1 | Some p \<Rightarrow> p)"
    and "L = (case q_limit of None \<Rightarrow> 10 | Some l \<Rightarrow> l)"
    and "\<bar>P\<bar> < 2 ^ 53" and "\<bar>L\<bar> < 2 ^ 53" and "\<bar>(P - 1) * L\<bar> < 2 ^ 53"
  shows "get_requests populate st uid q_estado q_page q_limit =
           (case skip_limit (Fin ((P - 1) * L)) (Fin L) (filter (request_filter uid q_estado) (ServiceRequests st)) of
              Inl e \<Rightarrow> (500, Failure ''Error al obtener las solicitudes'' (Some e))
            | Inr requests \<Rightarrow>
                (200, Success \<lparr> total = length (filter (request_filter uid q_estado) (ServiceRequests st)),
                                page = Fin P, limit = Fin L,
                                items = map (populate st) requests \<rparr>))"
proof -
  have p: "(case q_page of None \<Rightarrow> Fin 1 | Some p \<Rightarrow> js_Number p) = Fin P"
    using assms(1,3) by (rule query_number)
  have l: "(case q_limit of None \<Rightarrow> Fin 10 | Some l \<Rightarrow> js_Number l) = Fin L"
    using assms(2,4) by (rule query_number)
  have s: "js_times (js_minus_one (Fin P)) (Fin L) = Fin ((P - 1) * L)"
    using js_skip_safe[OF assms(3,4,5)] assms(3,4) by (simp add: js_Number_safe)
  show ?thesis unfolding get_requests_def Let_def p l s ..
qed

text \<open>
  Beyond 53 bits the echo is the rounded number: the page \<open>2 ^ 53 + 1\<close> comes back
  as \<open>2 ^ 53\<close>.
\<close>

lemma js_Number_rounds: "js_Number 9007199254740993 = Fin 9007199254740992"
  by code_simp

lemma get_patients_page_rounded:
  "get_patients store0 ''userA'' (Some 9007199254740993) (Some 1)
     = (200, Success \<lparr> total = 2, page = Fin 9007199254740992, limit = Fin 1, items = [] \<rparr>)"
proof -
  have l: "js_Number 1 = Fin 1" by (simp add: js_Number_safe)
  have m: "js_minus_one (Fin 9007199254740992) = Fin 9007199254740991"
    by (simp add: js_minus_one_def js_Number_safe)
  have o: "filter (\<lambda>p. usuario_id p = Some ''userA'') (Patients store0) = [ana, luis]"
    by (simp add: store0_def ana_def luis_def bea_def)
  have s: "skip_limit (Fin 9007199254740991) (Fin 1) [ana, luis] = Inr []"
    by (simp add: skip_limit_def)
  show ?thesis
    by (simp add: get_patients_def Let_def js_Number_rounds l m o s js_Number_safe)
qed

lemma split_sp_nonempty: "split_sp s \<noteq> []"
  by (induction s) (auto split: list.splits)

lemma hd_split_sp: "hd (split_sp s) = takeWhile (\<lambda>c. c \<noteq> CHR '' '') s"
  by (induction s) (auto split: list.splits simp: split_sp_nonempty)

lemma bearer_token_Bearer:
  "authorization req = Some (''Bearer '' @ t) \<Longrightarrow>
   bearer_token req = Some (takeWhile (\<lambda>c. c \<noteq> CHR '' '') t)"
proof -
  assume a: "authorization req = Some (''Bearer '' @ t)"
  obtain w ws where w: "split_sp t = w # ws" using split_sp_nonempty[of t] by (cases "split_sp t") auto
  then have "w = takeWhile (\<lambda>c. c \<noteq> CHR '' '') t" using hd_split_sp[of t] by simp
  with a w show ?thesis by (simp add: bearer_token_def)
qed

lemma bearer_token_no_space:
  "authorization req = Some h \<Longrightarrow> CHR '' '' \<notin> set h \<Longrightarrow> h \<noteq> [] \<Longrightarrow> bearer_token req = None"
proof -
  assume a: "authorization req = Some h" and n: "CHR '' '' \<notin> set h" and ne: "h \<noteq> []"
  have "CHR '' '' \<notin> set s \<Longrightarrow> split_sp s = [s]" for s
    by (induction s) auto
  with a n ne show ?thesis by (simp add: bearer_token_def)
qed

subsection \<open>What the handlers preserve\<close>

text \<open>
  A creation that is not answered 201 leaves the store as it was. Identifiers
  stay unique within each collection, and every stored status stays one of the
  four values: the hypotheses of this kind below hold of every store that the
  handlers have built from an empty one.
\<close>

lemma create_request_store:
  "fst (fst (create_request M st new_id uid b)) \<noteq> 201 \<Longrightarrow> snd (create_request M st new_id uid b) = st"
  by (auto simp: create_request_def split: option.splits sum.splits if_splits)

lemma create_patient_store:
  "fst (fst (create_patient M st new_id uid b)) \<noteq> 201 \<Longrightarrow> snd (create_patient M st new_id uid b) = st"
  by (auto simp: create_patient_def save_Patient_def Let_def split: sum.splits if_splits)

lemma create_patient_distinct:
  "distinct (map p_id (Patients st)) \<Longrightarrow>
   distinct (map p_id (Patients (snd (create_patient M st new_id uid b))))"
  by (auto simp: create_patient_def save_Patient_def new_Patient_def Let_def)

lemma create_request_distinct:
  "distinct (map sr_id (ServiceRequests st)) \<Longrightarrow>
   distinct (map sr_id (ServiceRequests (snd (create_request M st new_id uid b)))) \<and>
   Patients (snd (create_request M st new_id uid b)) = Patients st"
  by (auto simp: create_request_def save_ServiceRequest_def new_ServiceRequest_def
      split: option.splits sum.splits)

lemma findOneAndUpdate_ids:
  "map sr_id (snd (findOneAndUpdate i uid e rs)) = map sr_id rs"
  by (induction rs) (auto split: prod.splits)

lemma put_status_ids:
  "map sr_id (ServiceRequests (snd (put_status M st uid idp body_estado))) = map sr_id (ServiceRequests st) \<and>
   Patients (snd (put_status M st uid idp body_estado)) = Patients st"
proof -
  have "findOneAndUpdate i uid e (ServiceRequests st) = (d, rs') \<Longrightarrow>
        map sr_id rs' = map sr_id (ServiceRequests st)" for i e d rs'
    using findOneAndUpdate_ids[of i uid e "ServiceRequests st"] by simp
  then show ?thesis
    by (auto simp: put_status_def split: option.splits prod.splits)
qed

lemma findOneAndUpdate_estados:
  "e \<in> set estados \<Longrightarrow> \<forall>r\<in>set rs. estado r \<in> set estados \<Longrightarrow>
   \<forall>r\<in>set (snd (findOneAndUpdate i uid e rs)). estado r \<in> set estados"
  by (induction rs) (auto split: prod.splits)

lemma put_status_estados:
  assumes "\<forall>r\<in>set (ServiceRequests st). estado r \<in> set estados"
  shows "\<forall>r\<in>set (ServiceRequests (snd (put_status M st uid idp body_estado))). estado r \<in> set estados"
proof (cases "\<exists>e i d rs'. body_estado = Some e \<and> e \<in> set estados \<and> castObjectId M idp = Some i \<and>
                findOneAndUpdate i uid e (ServiceRequests st) = (Some d, rs')")
  case True
  then obtain e i d rs' where h: "body_estado = Some e" "e \<in> set estados" "castObjectId M idp = Some i"
    "findOneAndUpdate i uid e (ServiceRequests st) = (Some d, rs')" by blast
  from findOneAndUpdate_estados[OF h(2) assms, of i uid] h(4)
  have "\<forall>r\<in>set rs'. estado r \<in> set estados" by simp
  with h show ?thesis by (simp add: put_status_def)
next
  case False
  then have "snd (put_status M st uid idp body_estado) = st"
    by (auto simp: put_status_def split: option.splits prod.splits)
  with assms show ?thesis by simp
qed

lemma create_request_estados:
  assumes "\<forall>r\<in>set (ServiceRequests st). estado r \<in> set estados"
  shows "\<forall>r\<in>set (ServiceRequests (snd (create_request M st new_id uid b))). estado r \<in> set estados"
  using assms
  by (auto simp: create_request_def save_ServiceRequest_def new_ServiceRequest_def estados_def
      split: option.splits sum.splits)

section \<open>Creation is refused for patients of another owner\<close>

text \<open>
  User A asks for Ana and for \<open>zz\<close>, which is not the identifier of any patient
  and cannot be cast to one: the query fails, and the answer is the 400 of the
  handler's \<open>catch\<close>, not 403.
\<close>

theorem create_request_forbidden_counterexample:
  "b_patient_ids (body0\<lparr>b_patient_ids := Some [''p1'', ''zz'']\<rparr>) = Some [''p1'', ''zz''] \<and>
   castPatientId orm0 ''zz'' = None \<and>
   create_request orm0 store0 7 ''userA'' (body0\<lparr>b_patient_ids := Some [''p1'', ''zz'']\<rparr>)
     = ((400, Failure ''Error al crear la solicitud de servicio'' (Some CastError)), store0) \<and>
   fst (fst (create_request orm0 store0 7 ''userA'' (body0\<lparr>b_patient_ids := Some [''p1'', ''zz'']\<rparr>)))
     \<noteq> 403"
  by (simp add: create_request_def Patient_find_owned_def orm0_def)

text \<open>
  Claim C1, amended. Let the body of a creation attempt carry the identifiers
  \<open>pids\<close>, one of which is not that of a patient owned by the caller. Then the
  creation fails and the store is returned unchanged, no service request being
  persisted: the answer is 403 with the access-denied message when every
  supplied identifier can be cast to the identifier type of the patients, and
  the 400 of the handler's \<open>catch\<close> when one cannot. When the ownership query
  evaluates and finds fewer patients than identifiers were supplied, the answer
  is that 403.
\<close>

theorem create_request_forbidden:
  assumes "b_patient_ids b = Some pids" and "distinct (map p_id (Patients st))"
    and "\<exists>s\<in>set pids. \<forall>p\<in>set (Patients st).
            castPatientId M s = Some (p_id p) \<longrightarrow> usuario_id p \<noteq> Some uid"
  shows "create_request M st new_id uid b
           = ((if \<forall>s\<in>set pids. castPatientId M s \<noteq> None
               then (403, Failure (''Acceso denegado a uno o m'' @ a_acute
                                    @ ''s pacientes seleccionados'') None)
               else (400, Failure ''Error al crear la solicitud de servicio'' (Some CastError))),
              st) \<and>
         (\<forall>os. those (map (castPatientId M) pids) = Some os \<and>
               length (filter (\<lambda>p. p_id p \<in> set os \<and> usuario_id p = Some uid) (Patients st))
                 < length pids
            \<longrightarrow> create_request M st new_id uid b
                  = ((403, Failure (''Acceso denegado a uno o m'' @ a_acute
                                     @ ''s pacientes seleccionados'') None), st))"
proof (intro conjI allI impI)
  show "create_request M st new_id uid b
           = ((if \<forall>s\<in>set pids. castPatientId M s \<noteq> None
               then (403, Failure (''Acceso denegado a uno o m'' @ a_acute
                                    @ ''s pacientes seleccionados'') None)
               else (400, Failure ''Error al crear la solicitud de servicio'' (Some CastError))),
              st)"
  proof (cases "\<forall>s\<in>set pids. castPatientId M s \<noteq> None")
    case True
    from all_cast[OF True] obtain os where os: "those (map (castPatientId M) pids) = Some os" by blast
    from assms(3) obtain s where s: "s \<in> set pids"
      "\<forall>p\<in>set (Patients st). castPatientId M s = Some (p_id p) \<longrightarrow> usuario_id p \<noteq> Some uid"
      by blast
    from True s(1) obtain q where q: "castPatientId M s = Some q" by auto
    have "os = map (\<lambda>x. the (castPatientId M x)) pids" using those_map_Some[OF os] .
    with s(1) q have "q \<in> set os" by force
    moreover from s(2) q have "\<forall>p\<in>set (Patients st). p_id p = q \<longrightarrow> usuario_id p \<noteq> Some uid"
      by auto
    ultimately have "length (filter (\<lambda>p. p_id p \<in> set os \<and> usuario_id p = Some uid) (Patients st))
        < length pids"
      using owned_count_missing[OF os assms(2)] by blast
    with forbidden_branch[OF assms(1) os] True show ?thesis by simp
  next
    case False
    then have "\<exists>s\<in>set pids. castPatientId M s = None" by simp
    from cast_fail_branch[OF assms(1) this] False show ?thesis by simp
  qed
next
  fix os
  assume "those (map (castPatientId M) pids) = Some os \<and>
               length (filter (\<lambda>p. p_id p \<in> set os \<and> usuario_id p = Some uid) (Patients st))
                 < length pids"
  then show "create_request M st new_id uid b
                  = ((403, Failure (''Acceso denegado a uno o m'' @ a_acute
                                     @ ''s pacientes seleccionados'') None), st)"
    using forbidden_branch[OF assms(1)] by simp
qed

text \<open>
  User A asks for Ana, who is theirs, and Bea, who is user B's: 403. User A asks
  for Ana and \<open>zz\<close>: 400. The store is unchanged both times.
\<close>

theorem create_request_forbidden_witness:
  "distinct (map p_id (Patients store0)) \<and>
   (\<exists>s\<in>set [''p1'', ''p3'']. \<forall>p\<in>set (Patients store0).
       castPatientId orm0 s = Some (p_id p) \<longrightarrow> usuario_id p \<noteq> Some ''userA'') \<and>
   create_request orm0 store0 7 ''userA'' (body0\<lparr>b_patient_ids := Some [''p1'', ''p3'']\<rparr>)
     = ((403, Failure (''Acceso denegado a uno o m'' @ a_acute @ ''s pacientes seleccionados'') None),
        store0) \<and>
   (\<exists>s\<in>set [''p1'', ''zz'']. \<forall>p\<in>set (Patients store0).
       castPatientId orm0 s = Some (p_id p) \<longrightarrow> usuario_id p \<noteq> Some ''userA'') \<and>
   create_request orm0 store0 7 ''userA'' (body0\<lparr>b_patient_ids := Some [''p1'', ''zz'']\<rparr>)
     = ((400, Failure ''Error al crear la solicitud de servicio'' (Some CastError)), store0)"
proof -
  have a: "b_patient_ids (body0\<lparr>b_patient_ids := Some [''p1'', ''p3'']\<rparr>) = Some [''p1'', ''p3'']"
    by simp
  have a': "b_patient_ids (body0\<lparr>b_patient_ids := Some [''p1'', ''zz'']\<rparr>) = Some [''p1'', ''zz'']"
    by simp
  have c: "distinct (map p_id (Patients store0))" by (simp add: store0_def ana_def luis_def bea_def)
  have d: "\<exists>s\<in>set [''p1'', ''p3'']. \<forall>p\<in>set (Patients store0).
       castPatientId orm0 s = Some (p_id p) \<longrightarrow> usuario_id p \<noteq> Some ''userA''"
    by (simp add: store0_def orm0_def ana_def luis_def bea_def)
  have d': "\<exists>s\<in>set [''p1'', ''zz'']. \<forall>p\<in>set (Patients store0).
       castPatientId orm0 s = Some (p_id p) \<longrightarrow> usuario_id p \<noteq> Some ''userA''"
    by (simp add: store0_def orm0_def ana_def luis_def bea_def)
  have e: "\<forall>s\<in>set [''p1'', ''p3'']. castPatientId orm0 s \<noteq> None" by (simp add: orm0_def)
  have e': "\<not> (\<forall>s\<in>set [''p1'', ''zz'']. castPatientId orm0 s \<noteq> None)" by (simp add: orm0_def)
  from create_request_forbidden [OF a c d, of 7] e
  have r: "create_request orm0 store0 7 ''userA'' (body0\<lparr>b_patient_ids := Some [''p1'', ''p3'']\<rparr>)
     = ((403, Failure (''Acceso denegado a uno o m'' @ a_acute @ ''s pacientes seleccionados'') None),
        store0)"
    by presburger
  from create_request_forbidden [OF a' c d', of 7] e'
  have r': "create_request orm0 store0 7 ''userA'' (body0\<lparr>b_patient_ids := Some [''p1'', ''zz'']\<rparr>)
     = ((400, Failure ''Error al crear la solicitud de servicio'' (Some CastError)), store0)"
    by presburger
  from c d d' r r' show ?thesis by blast
qed

section \<open>A status update by another nurse\<close>

text \<open>
  A caller who is not the nurse of request 1 and sends a status outside the four
  values is answered 400 by the status check, which runs before the lookup: the
  answer is not 404.
\<close>

theorem put_status_other_nurse_counterexample:
  "req1 \<in> set (ServiceRequests store0) \<and> castObjectId orm0 ''a1'' = Some (sr_id req1) \<and>
   nurse_id req1 \<noteq> Some ''nurseX'' \<and>
   fst (put_status orm0 store0 ''nurseX'' ''a1'' (Some ''cancelada''))
     = (400, Failure (''Estado inv'' @ a_acute @ ''lido'') None) \<and>
   fst (fst (put_status orm0 store0 ''nurseX'' ''a1'' (Some ''cancelada''))) \<noteq> 404"
  by (simp add: put_status_def store0_def orm0_def req1_def estados_def)

text \<open>
  Claim C2, amended. Let a request with the identifier of the path exist whose
  nurse is not the caller. Then the status update never succeeds and leaves the
  store unchanged; with any of the four status values the answer is 404, the
  lookup by identifier and nurse finding nothing, and with any other status the
  answer is the 400 of the status check.
\<close>

theorem put_status_other_nurse:
  assumes "r \<in> set (ServiceRequests st)" and "castObjectId M idp = Some (sr_id r)"
    and "nurse_id r \<noteq> Some uid" and "distinct (map sr_id (ServiceRequests st))"
  shows "fst (fst (put_status M st uid idp body_estado)) \<noteq> 200 \<and>
         snd (put_status M st uid idp body_estado) = st \<and>
         (\<forall>e\<in>set estados. put_status M st uid idp (Some e)
             = ((404, Failure ''Solicitud de servicio no encontrada'' None), st)) \<and>
         ((\<forall>e. body_estado = Some e \<longrightarrow> e \<notin> set estados) \<longrightarrow>
             fst (fst (put_status M st uid idp body_estado)) = 400)"
proof -
  have nomatch: "\<forall>r'\<in>set (ServiceRequests st). \<not> (sr_id r' = sr_id r \<and> nurse_id r' = Some uid)"
  proof
    fix r' assume r': "r' \<in> set (ServiceRequests st)"
    show "\<not> (sr_id r' = sr_id r \<and> nurse_id r' = Some uid)"
    proof
      assume m: "sr_id r' = sr_id r \<and> nurse_id r' = Some uid"
      with assms(1,4) r' have "r' = r" by (auto dest: distinct_map_unique)
      with m assms(3) show False by simp
    qed
  qed
  with assms(2) have nomatch': "\<forall>r'\<in>set (ServiceRequests st). \<not> (castObjectId M idp = Some (sr_id r') \<and> nurse_id r' = Some uid)"
    by auto
  from put_status_never_200_unless_match[OF nomatch']
  have a: "fst (fst (put_status M st uid idp body_estado)) \<noteq> 200 \<and> snd (put_status M st uid idp body_estado) = st" .
  have b: "\<forall>e\<in>set estados. put_status M st uid idp (Some e)
             = ((404, Failure ''Solicitud de servicio no encontrada'' None), st)"
    using put_status_404[OF nomatch assms(2)] by blast
  have c: "(\<forall>e. body_estado = Some e \<longrightarrow> e \<notin> set estados) \<longrightarrow>
             fst (fst (put_status M st uid idp body_estado)) = 400"
    using estado_invalido[of body_estado M st uid idp] by simp
  from a b c show ?thesis by blast
qed

text \<open>
  Nurse X on the request of nurse N: 404 with a valid status, 400 with an
  invalid one, the store unchanged both times.
\<close>

theorem put_status_other_nurse_witness:
  "req1 \<in> set (ServiceRequests store0) \<and> castObjectId orm0 ''a1'' = Some (sr_id req1) \<and>
   nurse_id req1 \<noteq> Some ''nurseX'' \<and> distinct (map sr_id (ServiceRequests store0)) \<and>
   ''completada'' \<in> set estados \<and>
   put_status orm0 store0 ''nurseX'' ''a1'' (Some ''completada'')
     = ((404, Failure ''Solicitud de servicio no encontrada'' None), store0) \<and>
   fst (fst (put_status orm0 store0 ''nurseX'' ''a1'' (Some ''cancelada''))) = 400"
proof -
  have a: "req1 \<in> set (ServiceRequests store0)" by (simp add: store0_def)
  have b: "castObjectId orm0 ''a1'' = Some (sr_id req1)" by (simp add: orm0_def req1_def)
  have c: "nurse_id req1 \<noteq> Some ''nurseX''" by (simp add: req1_def)
  have d: "distinct (map sr_id (ServiceRequests store0))" by (simp add: store0_def)
  have e: "''completada'' \<in> set estados" by (simp add: estados_def)
  have f: "\<forall>e. Some ''cancelada'' = Some e \<longrightarrow> e \<notin> set estados" by (simp add: estados_def)
  from put_status_other_nurse [OF a b c d, of "Some ''cancelada''"] a b c d e f
  show ?thesis by blast
qed

section \<open>Validation of the status value\<close>

text \<open>
  Claim C3. A status update whose body has no status, or a status outside the
  four enumerated values, is answered 400 with the invalid-status message and
  the store unchanged. Each of the four values passes that check, and a request
  located by identifier and nurse is then updated to it whatever its current
  status is: no transition graph is enforced.
\<close>

theorem put_status_estado_validation:
  "((\<forall>e. body_estado = Some e \<longrightarrow> e \<notin> set estados) \<longrightarrow>
      put_status M st uid idp body_estado
        = ((400, Failure (''Estado inv'' @ a_acute @ ''lido'') None), st)) \<and>
   (e \<in> set estados \<longrightarrow>
      fst (put_status M st uid idp (Some e)) \<noteq> (400, Failure (''Estado inv'' @ a_acute @ ''lido'') None) \<and>
      (\<forall>r\<in>set (ServiceRequests st).
          castObjectId M idp = Some (sr_id r) \<and> nurse_id r = Some uid \<longrightarrow>
          (\<exists>d st'. put_status M st uid idp (Some e)
                     = ((200, Success (''Solicitud '' @ e @ '' exitosamente'', d)), st')
                   \<and> estado d = e)))"
  using estado_invalido put_status_valid_not_invalid put_status_found by blast

text \<open>
  An unknown status and an absent one are refused; nurse N moves the completed
  request 2 back to pending.
\<close>

theorem put_status_estado_validation_witness:
  "put_status orm0 store1 ''nurseN'' ''a2'' (Some ''cancelada'')
     = ((400, Failure (''Estado inv'' @ a_acute @ ''lido'') None), store1) \<and>
   put_status orm0 store1 ''nurseN'' ''a2'' None
     = ((400, Failure (''Estado inv'' @ a_acute @ ''lido'') None), store1) \<and>
   ''pendiente'' \<in> set estados \<and> req_done \<in> set (ServiceRequests store1) \<and>
   estado req_done = ''completada'' \<and>
   fst (put_status orm0 store1 ''nurseN'' ''a2'' (Some ''pendiente''))
     \<noteq> (400, Failure (''Estado inv'' @ a_acute @ ''lido'') None) \<and>
   (\<exists>d st'. put_status orm0 store1 ''nurseN'' ''a2'' (Some ''pendiente'')
               = ((200, Success (''Solicitud pendiente exitosamente'', d)), st') \<and>
             estado d = ''pendiente'')"
proof -
  have a: "\<forall>e. Some ''cancelada'' = Some e \<longrightarrow> e \<notin> set estados" by (simp add: estados_def)
  have b: "\<forall>e. (None :: string option) = Some e \<longrightarrow> e \<notin> set estados" by simp
  have c: "''pendiente'' \<in> set estados" by (simp add: estados_def)
  have d: "req_done \<in> set (ServiceRequests store1)" by (simp add: store1_def)
  have e: "castObjectId orm0 ''a2'' = Some (sr_id req_done) \<and> nurse_id req_done = Some ''nurseN''"
    by (simp add: orm0_def req_done_def req1_def)
  have f: "estado req_done = ''completada''" by (simp add: req_done_def)
  from put_status_estado_validation [of "Some ''cancelada''" orm0 store1 "''nurseN''" "''a2''" "''pendiente''"]
    put_status_estado_validation [of "None" orm0 store1 "''nurseN''" "''a2''" "''pendiente''"]
    a b c d e f
  show ?thesis by auto
qed

section \<open>Outcomes of the auth gate\<close>

text \<open>
  Claim C4. The gate answers 401 exactly when the request carries no token (no
  header, or a header without a non-empty second piece), and 403 exactly when it
  carries a token that verification rejects; the two are different answers. When
  verification accepts the token, the next handler runs on the request with the
  user identifier of the token's payload attached. The token of a header
  \<open>Bearer t\<close> is \<open>t\<close> up to its first space.
\<close>

theorem authenticateToken_outcomes:
  "(authenticateToken verify req = SendStatus 401
      \<longleftrightarrow> bearer_token req = None \<or> bearer_token req = Some []) \<and>
   (authenticateToken verify req = SendStatus 403
      \<longleftrightarrow> (\<exists>t. bearer_token req = Some t \<and> t \<noteq> [] \<and> verify t = None)) \<and>
   (\<forall>t user. bearer_token req = Some t \<and> t \<noteq> [] \<and> verify t = Some user \<longrightarrow>
      authenticateToken verify req = Next (req\<lparr>userId := Some (payload_userId user)\<rparr>)) \<and>
   (authorization req = None \<longrightarrow> bearer_token req = None) \<and>
   (\<forall>h. authorization req = Some h \<and> CHR '' '' \<notin> set h \<longrightarrow>
      bearer_token req = None \<or> bearer_token req = Some []) \<and>
   (\<forall>t. authorization req = Some (''Bearer '' @ t) \<longrightarrow>
      bearer_token req = Some (takeWhile (\<lambda>c. c \<noteq> CHR '' '') t))"
proof (intro conjI allI impI)
  show "authenticateToken verify req = SendStatus 401
      \<longleftrightarrow> bearer_token req = None \<or> bearer_token req = Some []"
    by (auto simp: authenticateToken_def split: option.splits)
  show "authenticateToken verify req = SendStatus 403
      \<longleftrightarrow> (\<exists>t. bearer_token req = Some t \<and> t \<noteq> [] \<and> verify t = None)"
    by (auto simp: authenticateToken_def split: option.splits)
  show "authenticateToken verify req = Next (req\<lparr>userId := Some (payload_userId user)\<rparr>)"
    if "bearer_token req = Some t \<and> t \<noteq> [] \<and> verify t = Some user" for t user
    using that by (simp add: authenticateToken_def)
  show "bearer_token req = None" if "authorization req = None"
    using that by (simp add: bearer_token_def)
  show "bearer_token req = None \<or> bearer_token req = Some []"
    if "authorization req = Some h \<and> CHR '' '' \<notin> set h" for h
  proof (cases "h = []")
    case True
    with that show ?thesis by (simp add: bearer_token_def)
  next
    case False
    with that bearer_token_no_space[of req h] show ?thesis by simp
  qed
  show "bearer_token req = Some (takeWhile (\<lambda>c. c \<noteq> CHR '' '') t)"
    if "authorization req = Some (''Bearer '' @ t)" for t
    using that by (rule bearer_token_Bearer)
qed


text \<open>
  No header, a header without token, a rejected token and an accepted one.
\<close>

theorem authenticateToken_outcomes_witness:
  "authenticateToken verify0 \<lparr>authorization = None, userId = None\<rparr> = SendStatus 401 \<and>
   authenticateToken verify0 \<lparr>authorization = Some ''Bearer'', userId = None\<rparr> = SendStatus 401 \<and>
   authenticateToken verify0 \<lparr>authorization = Some ''Bearer '', userId = None\<rparr> = SendStatus 401 \<and>
   authenticateToken verify0 \<lparr>authorization = Some ''Bearer expired'', userId = None\<rparr> = SendStatus 403 \<and>
   authenticateToken verify0 \<lparr>authorization = Some ''Bearer tokA'', userId = None\<rparr>
     = Next \<lparr>authorization = Some ''Bearer tokA'', userId = Some ''userA''\<rparr> \<and>
   SendStatus 401 \<noteq> SendStatus 403"
proof -
  let ?r = "\<lambda>h. \<lparr>authorization = h, userId = None\<rparr>"
  note t = authenticateToken_outcomes [of verify0]
  have 1: "authenticateToken verify0 (?r None) = SendStatus 401"
    using t [of "?r None"] by simp
  have 2: "authenticateToken verify0 (?r (Some ''Bearer'')) = SendStatus 401"
    using t [of "?r (Some ''Bearer'')"] by simp
  have "bearer_token (?r (Some ''Bearer '')) = Some []"
    using t [of "?r (Some ''Bearer '')"] by simp
  then have 3: "authenticateToken verify0 (?r (Some ''Bearer '')) = SendStatus 401"
    using t [of "?r (Some ''Bearer '')"] by simp
  have "bearer_token (?r (Some ''Bearer expired'')) = Some ''expired''"
    using t [of "?r (Some ''Bearer expired'')"] by simp
  moreover have "verify0 ''expired'' = None" by (simp add: verify0_def)
  ultimately have 4: "authenticateToken verify0 (?r (Some ''Bearer expired'')) = SendStatus 403"
    using t [of "?r (Some ''Bearer expired'')"] by simp
  have "bearer_token (?r (Some ''Bearer tokA'')) = Some ''tokA''"
    using t [of "?r (Some ''Bearer tokA'')"] by simp
  moreover have "verify0 ''tokA'' = Some \<lparr>payload_userId = ''userA''\<rparr>" by (simp add: verify0_def)
  ultimately have "bearer_token (?r (Some ''Bearer tokA'')) = Some ''tokA'' \<and> ''tokA'' \<noteq> [] \<and>
      verify0 ''tokA'' = Some \<lparr>payload_userId = ''userA''\<rparr>" by simp
  then have "authenticateToken verify0 (?r (Some ''Bearer tokA''))
     = Next ((?r (Some ''Bearer tokA''))\<lparr>userId := Some (payload_userId \<lparr>payload_userId = ''userA''\<rparr>)\<rparr>)"
    using t [of "?r (Some ''Bearer tokA'')"] by blast
  then have 5: "authenticateToken verify0 (?r (Some ''Bearer tokA''))
     = Next \<lparr>authorization = Some ''Bearer tokA'', userId = Some ''userA''\<rparr>"
    by simp
  from 1 2 3 4 5 show ?thesis by simp
qed

section \<open>A status update changes the status only\<close>

text \<open>
  Claim C5. A status update answered 200 has replaced exactly one stored
  request, the one located by the identifier of the path and the caller as
  nurse, by itself with the new status: every other field of it, every other
  request and the patients are unchanged. The answer carries the updated
  request and the message naming the new status.
\<close>

theorem put_status_frame:
  assumes "fst (fst (put_status M st uid idp body_estado)) = 200"
  shows "\<exists>e k. body_estado = Some e \<and> k < length (ServiceRequests st) \<and>
           (let old = ServiceRequests st ! k; new = old\<lparr>estado := e\<rparr>
            in put_status M st uid idp body_estado
                 = ((200, Success (''Solicitud '' @ e @ '' exitosamente'', new)),
                    st\<lparr>ServiceRequests := (ServiceRequests st)[k := new]\<rparr>) \<and>
               castObjectId M idp = Some (sr_id old) \<and> nurse_id old = Some uid \<and>
               estado new = e \<and>
               sr_id new = sr_id old \<and> user_id new = user_id old \<and>
               nurse_id new = nurse_id old \<and> patient_ids new = patient_ids old \<and>
               detalles new = detalles old \<and> fecha new = fecha old \<and>
               tarifa new = tarifa old \<and> pago_realizado new = pago_realizado old \<and>
               pago_liberado new = pago_liberado old \<and>
               documentacion_servicio new = documentacion_servicio old \<and>
               observaciones new = observaciones old \<and>
               recomendaciones new = recomendaciones old)"
proof -
  from assms obtain e i d rs' where h: "body_estado = Some e" "e \<in> set estados"
      "castObjectId M idp = Some i" "findOneAndUpdate i uid e (ServiceRequests st) = (Some d, rs')"
    by (auto simp: put_status_def split: option.splits if_splits prod.splits)
  from findOneAndUpdate_Some[OF h(4)] obtain k where k: "k < length (ServiceRequests st)"
      "sr_id (ServiceRequests st ! k) = i" "nurse_id (ServiceRequests st ! k) = Some uid"
      "d = (ServiceRequests st ! k)\<lparr>estado := e\<rparr>" "rs' = (ServiceRequests st)[k := d]" by blast
  have "put_status M st uid idp body_estado
          = ((200, Success (''Solicitud '' @ e @ '' exitosamente'', d)), st\<lparr>ServiceRequests := rs'\<rparr>)"
    using h by (simp add: put_status_def)
  with h(1,3) k show ?thesis by (auto simp: Let_def)
qed

text \<open>
  Nurse N completes request 1.
\<close>

theorem put_status_frame_witness:
  "fst (fst (put_status orm0 store0 ''nurseN'' ''a1'' (Some ''completada''))) = 200 \<and>
   put_status orm0 store0 ''nurseN'' ''a1'' (Some ''completada'')
     = ((200, Success (''Solicitud completada exitosamente'', req1\<lparr>estado := ''completada''\<rparr>)),
        store0\<lparr>ServiceRequests := [req1\<lparr>estado := ''completada''\<rparr>]\<rparr>)"
proof -
  have h: "fst (fst (put_status orm0 store0 ''nurseN'' ''a1'' (Some ''completada''))) = 200"
    by (simp add: put_status_def store0_def orm0_def req1_def estados_def)
  from put_status_frame [OF h] obtain e k where
    "Some ''completada'' = Some e" "k < length (ServiceRequests store0)"
    "put_status orm0 store0 ''nurseN'' ''a1'' (Some ''completada'')
       = ((200, Success (''Solicitud '' @ e @ '' exitosamente'', (ServiceRequests store0 ! k)\<lparr>estado := e\<rparr>)),
          store0\<lparr>ServiceRequests := (ServiceRequests store0)[k := (ServiceRequests store0 ! k)\<lparr>estado := e\<rparr>]\<rparr>)"
    by (auto simp: Let_def)
  then show ?thesis using h by (simp add: store0_def)
qed

section \<open>Defaults of a created request\<close>

text \<open>
  Claim C6. A creation answered 201 has appended one request to the store, with
  the status \<open>pendiente\<close>, both payment flags false, the caller as requester
  and the fields of the body; the answer is that request, with its identifier.
  The object answered by a patient creation, in contrast, has no \<open>_id\<close> key.
\<close>

theorem create_request_defaults:
  "(fst (fst (create_request M st new_id uid b)) = 201 \<longrightarrow>
      (\<exists>d pids. b_patient_ids b = Some pids \<and>
         create_request M st new_id uid b
           = ((201, Success d), st\<lparr>ServiceRequests := ServiceRequests st @ [d]\<rparr>) \<and>
         sr_id d = new_id \<and> estado d = ''pendiente'' \<and>
         \<not> pago_realizado d \<and> \<not> pago_liberado d \<and>
         user_id d = uid \<and> nurse_id d = b_nurse_id b \<and> patient_ids d = pids \<and>
         detalles d = b_detalles b \<and> fecha d = b_fecha b \<and> tarifa d = b_tarifa b)) \<and>
   (\<forall>obj st'. create_patient M2 st2 pid puid pb = ((201, Success obj), st') \<longrightarrow>
       ''_id'' \<notin> fst ` set obj)"
proof (intro conjI impI allI)
  assume "fst (fst (create_request M st new_id uid b)) = 201"
  from create_request_201[OF this] obtain pids where
    "b_patient_ids b = Some pids"
    "create_request M st new_id uid b
             = ((201, Success (new_ServiceRequest new_id uid b pids)),
                st\<lparr>ServiceRequests := ServiceRequests st @ [new_ServiceRequest new_id uid b pids]\<rparr>)"
    by blast
  then show "\<exists>d pids. b_patient_ids b = Some pids \<and>
         create_request M st new_id uid b
           = ((201, Success d), st\<lparr>ServiceRequests := ServiceRequests st @ [d]\<rparr>) \<and>
         sr_id d = new_id \<and> estado d = ''pendiente'' \<and>
         \<not> pago_realizado d \<and> \<not> pago_liberado d \<and>
         user_id d = uid \<and> nurse_id d = b_nurse_id b \<and> patient_ids d = pids \<and>
         detalles d = b_detalles b \<and> fecha d = b_fecha b \<and> tarifa d = b_tarifa b"
    by (simp add: new_ServiceRequest_def)
next
  fix obj st'
  assume h: "create_patient M2 st2 pid puid pb = ((201, Success obj), st')"
  then have "fst (fst (create_patient M2 st2 pid puid pb)) = 201" by simp
  from create_patient_201[OF this] h show "''_id'' \<notin> fst ` set obj"
    by (auto simp: without_id_no_id)
qed

text \<open>
  User A books nurse N for Ana and Luis, and registers a patient.
\<close>

theorem create_request_defaults_witness:
  "fst (fst (create_request orm0 store0 7 ''userA'' body0)) = 201 \<and>
   create_request orm0 store0 7 ''userA'' body0
     = ((201, Success (new_ServiceRequest 7 ''userA'' body0 [''p1'', ''p2''])),
        store0\<lparr>ServiceRequests := [req1, new_ServiceRequest 7 ''userA'' body0 [''p1'', ''p2'']]\<rparr>) \<and>
   sr_id (new_ServiceRequest 7 ''userA'' body0 [''p1'', ''p2'']) = 7 \<and>
   estado (new_ServiceRequest 7 ''userA'' body0 [''p1'', ''p2'']) = ''pendiente'' \<and>
   create_patient orm0 store0 9 ''userA''
       \<lparr>b_name = Some ''Eva'', b_fecha_nacimiento = None, b_genero = None, b_descripcion = None, b_usuario_id = None\<rparr>
     = ((201, Success [(''name'', JString ''Eva''), (''usuario_id'', JString ''userA''), (''__v'', JNumber 0)]),
        store0\<lparr>Patients := [ana, luis, bea,
           \<lparr>p_id = 9, name = Some ''Eva'', fecha_nacimiento = None, genero = None, descripcion = None,
            usuario_id = Some ''userA''\<rparr>]\<rparr>) \<and>
   ''_id'' \<notin> fst ` set [(''name'', JString ''Eva''), (''usuario_id'', JString ''userA''), (''__v'', JNumber 0)]"
proof -
  have h: "fst (fst (create_request orm0 store0 7 ''userA'' body0)) = 201"
    by (simp add: create_request_def Patient_find_owned_def save_ServiceRequest_def
        validate_ServiceRequest_def new_ServiceRequest_def orm0_def store0_def body0_def
        ana_def luis_def bea_def req1_def)
  have p: "create_patient orm0 store0 9 ''userA''
       \<lparr>b_name = Some ''Eva'', b_fecha_nacimiento = None, b_genero = None, b_descripcion = None, b_usuario_id = None\<rparr>
     = ((201, Success [(''name'', JString ''Eva''), (''usuario_id'', JString ''userA''), (''__v'', JNumber 0)]),
        store0\<lparr>Patients := [ana, luis, bea,
           \<lparr>p_id = 9, name = Some ''Eva'', fecha_nacimiento = None, genero = None, descripcion = None,
            usuario_id = Some ''userA''\<rparr>]\<rparr>)"
    by (simp add: create_patient_def save_Patient_def new_Patient_def toObject_def without_id_def
        field_def orm0_def store0_def ana_def luis_def bea_def)
  have b: "b_patient_ids body0 = Some [''p1'', ''p2'']" by (simp add: body0_def)
  have q: "''_id'' \<notin> fst ` set [(''name'', JString ''Eva''), (''usuario_id'', JString ''userA''), (''__v'', JNumber 0)]"
    using create_request_defaults [of orm0 store0 7 "''userA''" body0 orm0 store0 9 "''userA''"
        "\<lparr>b_name = Some ''Eva'', b_fecha_nacimiento = None, b_genero = None, b_descripcion = None, b_usuario_id = None\<rparr>"] p
    by blast
  from create_request_defaults [of orm0 store0 7 "''userA''" body0] h
  obtain d pids where d: "b_patient_ids body0 = Some pids"
     "create_request orm0 store0 7 ''userA'' body0
           = ((201, Success d), store0\<lparr>ServiceRequests := ServiceRequests store0 @ [d]\<rparr>)"
     "sr_id d = 7" "estado d = ''pendiente''" "user_id d = ''userA''" "nurse_id d = b_nurse_id body0"
     "patient_ids d = pids" "detalles d = b_detalles body0" "fecha d = b_fecha body0" "tarifa d = b_tarifa body0"
     "\<not> pago_realizado d" "\<not> pago_liberado d"
    by blast
  have e: "create_request orm0 store0 7 ''userA'' body0
     = ((201, Success (new_ServiceRequest 7 ''userA'' body0 [''p1'', ''p2''])),
        store0\<lparr>ServiceRequests := [req1, new_ServiceRequest 7 ''userA'' body0 [''p1'', ''p2'']]\<rparr>)"
    by (simp add: create_request_def Patient_find_owned_def save_ServiceRequest_def
        validate_ServiceRequest_def new_ServiceRequest_def orm0_def store0_def body0_def
        ana_def luis_def bea_def req1_def)
  from d e have "d = new_ServiceRequest 7 ''userA'' body0 [''p1'', ''p2'']" by simp
  with d h e p q show ?thesis by simp
qed

section \<open>Pagination\<close>




section \<open>Owner and identifier of a patient\<close>

text \<open>
  Claim C8. A patient creation answered 201 has appended one patient whose owner
  is the caller, whatever owner the body named, and whose attributes are those
  of the body; the answer is the object of that patient without its \<open>_id\<close>
  key. No object in the answer of the patient list has an \<open>_id\<close> key either.
\<close>

theorem create_patient_owner_and_strip:
  "(fst (fst (create_patient M st new_id uid b)) = 201 \<longrightarrow>
      (\<exists>p. create_patient M st new_id uid b
              = ((201, Success (without_id (toObject p))), st\<lparr>Patients := Patients st @ [p]\<rparr>) \<and>
            usuario_id p = Some uid \<and> p_id p = new_id \<and>
            name p = b_name b \<and> fecha_nacimiento p = b_fecha_nacimiento b \<and>
            genero p = b_genero b \<and> descripcion p = b_descripcion b \<and>
            without_id (toObject p) = tl (toObject p) \<and>
            ''_id'' \<notin> fst ` set (without_id (toObject p)) \<and>
            (''usuario_id'', JString uid) \<in> set (without_id (toObject p)))) \<and>
   (\<forall>l. get_patients st2 uid2 q_page q_limit = (200, Success l) \<longrightarrow>
        (\<forall>obj\<in>set (items l). ''_id'' \<notin> fst ` set obj))"
proof (intro conjI impI allI ballI)
  assume "fst (fst (create_patient M st new_id uid b)) = 201"
  from create_patient_201[OF this]
  show "\<exists>p. create_patient M st new_id uid b
              = ((201, Success (without_id (toObject p))), st\<lparr>Patients := Patients st @ [p]\<rparr>) \<and>
            usuario_id p = Some uid \<and> p_id p = new_id \<and>
            name p = b_name b \<and> fecha_nacimiento p = b_fecha_nacimiento b \<and>
            genero p = b_genero b \<and> descripcion p = b_descripcion b \<and>
            without_id (toObject p) = tl (toObject p) \<and>
            ''_id'' \<notin> fst ` set (without_id (toObject p)) \<and>
            (''usuario_id'', JString uid) \<in> set (without_id (toObject p))"
    by (intro exI[of _ "new_Patient new_id (b\<lparr>b_usuario_id := Some uid\<rparr>)"])
       (simp add: without_id_no_id without_id_toObject[symmetric] owner_in_object new_Patient_def)
next
  fix l obj
  assume "get_patients st2 uid2 q_page q_limit = (200, Success l)" "obj \<in> set (items l)"
  then show "''_id'' \<notin> fst ` set obj" by (rule get_patients_items_stripped)
qed


text \<open>
  User A registers Eva with a body that names user B as owner; user B lists
  their patients.
\<close>

theorem create_patient_owner_and_strip_witness:
  "fst (fst (create_patient orm0 store0 9 ''userA'' eva_body)) = 201 \<and>
   create_patient orm0 store0 9 ''userA'' eva_body
     = ((201, Success [(''name'', JString ''Eva''), (''genero'', JString ''F''),
                       (''usuario_id'', JString ''userA''), (''__v'', JNumber 0)]),
        store0\<lparr>Patients := [ana, luis, bea,
           \<lparr>p_id = 9, name = Some ''Eva'', fecha_nacimiento = None, genero = Some ''F'',
            descripcion = None, usuario_id = Some ''userA''\<rparr>]\<rparr>) \<and>
   get_patients store0 ''userB'' None None
     = (200, Success \<lparr>total = 1, page = Fin 1, limit = Fin 10,
          items = [[(''name'', JString ''Bea''), (''fecha_nacimiento'', JString ''1970-07-07''),
                    (''genero'', JString ''F''), (''usuario_id'', JString ''userB''), (''__v'', JNumber 0)]]\<rparr>) \<and>
   ''_id'' \<notin> fst ` set [(''name'', JString ''Bea''), (''fecha_nacimiento'', JString ''1970-07-07''),
                           (''genero'', JString ''F''), (''usuario_id'', JString ''userB''), (''__v'', JNumber 0)]"
proof -
  have h: "fst (fst (create_patient orm0 store0 9 ''userA'' eva_body)) = 201"
    by (simp add: create_patient_def save_Patient_def new_Patient_def orm0_def store0_def
        ana_def luis_def bea_def eva_body_def Let_def)
  have g: "get_patients store0 ''userB'' None None
     = (200, Success \<lparr>total = 1, page = Fin 1, limit = Fin 10,
          items = [[(''name'', JString ''Bea''), (''fecha_nacimiento'', JString ''1970-07-07''),
                    (''genero'', JString ''F''), (''usuario_id'', JString ''userB''), (''__v'', JNumber 0)]]\<rparr>)"
    by (simp add: get_patients_def skip_limit_def js_minus_one_def js_Number_def round53_def
        toObject_def without_id_def field_def store0_def ana_def luis_def bea_def)
  note t = create_patient_owner_and_strip [of orm0 store0 9 "''userA''" eva_body store0 "''userB''" None None]
  from t h obtain p where p: "create_patient orm0 store0 9 ''userA'' eva_body
              = ((201, Success (without_id (toObject p))), store0\<lparr>Patients := Patients store0 @ [p]\<rparr>)"
      "usuario_id p = Some ''userA''" "p_id p = 9" "name p = b_name eva_body"
      "fecha_nacimiento p = b_fecha_nacimiento eva_body" "genero p = b_genero eva_body"
      "descripcion p = b_descripcion eva_body"
    by blast
  then have "p = \<lparr>p_id = 9, name = Some ''Eva'', fecha_nacimiento = None, genero = Some ''F'',
            descripcion = None, usuario_id = Some ''userA''\<rparr>"
    by (cases p) (simp add: eva_body_def)
  with p(1) have c: "create_patient orm0 store0 9 ''userA'' eva_body
     = ((201, Success [(''name'', JString ''Eva''), (''genero'', JString ''F''),
                       (''usuario_id'', JString ''userA''), (''__v'', JNumber 0)]),
        store0\<lparr>Patients := [ana, luis, bea,
           \<lparr>p_id = 9, name = Some ''Eva'', fecha_nacimiento = None, genero = Some ''F'',
            descripcion = None, usuario_id = Some ''userA''\<rparr>]\<rparr>)"
    by (simp add: toObject_def without_id_def field_def store0_def)
  from t g have "\<forall>obj\<in>set [[(''name'', JString ''Bea''), (''fecha_nacimiento'', JString ''1970-07-07''),
                    (''genero'', JString ''F''), (''usuario_id'', JString ''userB''), (''__v'', JNumber 0)]].
       ''_id'' \<notin> fst ` set obj"
    by (metis listing.select_convs(4))
  then have "''_id'' \<notin> fst ` set [(''name'', JString ''Bea''), (''fecha_nacimiento'', JString ''1970-07-07''),
                           (''genero'', JString ''F''), (''usuario_id'', JString ''userB''), (''__v'', JNumber 0)]"
    by simp
  with h c g show ?thesis by blast
qed

section \<open>Duplicate patient identifiers\<close>

text \<open>
  User A lists \<open>zz\<close> twice: the list has a duplicate, the query cannot cast it,
  and the answer is the 400 of the handler's \<open>catch\<close>, not 403.
\<close>

theorem create_request_duplicate_ids_counterexample:
  "b_patient_ids (body0\<lparr>b_patient_ids := Some [''zz'', ''zz'']\<rparr>) = Some [''zz'', ''zz''] \<and>
   \<not> distinct [''zz'', ''zz''] \<and>
   create_request orm0 store0 7 ''userA'' (body0\<lparr>b_patient_ids := Some [''zz'', ''zz'']\<rparr>)
     = ((400, Failure ''Error al crear la solicitud de servicio'' (Some CastError)), store0) \<and>
   fst (fst (create_request orm0 store0 7 ''userA'' (body0\<lparr>b_patient_ids := Some [''zz'', ''zz'']\<rparr>)))
     \<noteq> 403"
  by (simp add: create_request_def Patient_find_owned_def orm0_def)

text \<open>
  Claim C9, amended. When the supplied list of patient identifiers has a
  duplicate, the creation fails and the store is unchanged: the answer is 403
  when every supplied identifier can be cast to the identifier type of the
  patients, also when every listed patient is owned by the caller, because the
  query returns each stored patient once and so fewer patients than the list is
  long; it is the 400 of the handler's \<open>catch\<close> when an identifier cannot be
  cast.
\<close>

theorem create_request_duplicate_ids:
  assumes "b_patient_ids b = Some pids" and "distinct (map p_id (Patients st))"
    and "\<not> distinct pids"
  shows "create_request M st new_id uid b
           = ((if \<forall>s\<in>set pids. castPatientId M s \<noteq> None
               then (403, Failure (''Acceso denegado a uno o m'' @ a_acute
                                    @ ''s pacientes seleccionados'') None)
               else (400, Failure ''Error al crear la solicitud de servicio'' (Some CastError))),
              st)"
proof (cases "\<forall>s\<in>set pids. castPatientId M s \<noteq> None")
  case True
  from all_cast[OF True] obtain os where os: "those (map (castPatientId M) pids) = Some os" by blast
  from forbidden_branch[OF assms(1) os] owned_count_duplicates[OF os assms(2,3)] True
  show ?thesis by (simp add: less_imp_neq)
next
  case False
  then have "\<exists>s\<in>set pids. castPatientId M s = None" by simp
  from cast_fail_branch[OF assms(1) this] False show ?thesis by simp
qed

text \<open>
  User A lists Ana twice and is refused with 403, although Ana is theirs and
  listing her once succeeds; listing \<open>zz\<close> twice is answered 400.
\<close>

theorem create_request_duplicate_ids_witness:
  "distinct (map p_id (Patients store0)) \<and> \<not> distinct [''p1'', ''p1''] \<and>
   (\<exists>p\<in>set (Patients store0). castPatientId orm0 ''p1'' = Some (p_id p) \<and>
       usuario_id p = Some ''userA'') \<and>
   create_request orm0 store0 7 ''userA'' (body0\<lparr>b_patient_ids := Some [''p1'', ''p1'']\<rparr>)
     = ((403, Failure (''Acceso denegado a uno o m'' @ a_acute @ ''s pacientes seleccionados'') None),
        store0) \<and>
   fst (fst (create_request orm0 store0 7 ''userA'' (body0\<lparr>b_patient_ids := Some [''p1'']\<rparr>))) = 201 \<and>
   \<not> distinct [''zz'', ''zz''] \<and>
   create_request orm0 store0 7 ''userA'' (body0\<lparr>b_patient_ids := Some [''zz'', ''zz'']\<rparr>)
     = ((400, Failure ''Error al crear la solicitud de servicio'' (Some CastError)), store0)"
proof -
  have a: "b_patient_ids (body0\<lparr>b_patient_ids := Some [''p1'', ''p1'']\<rparr>) = Some [''p1'', ''p1'']"
    by simp
  have a': "b_patient_ids (body0\<lparr>b_patient_ids := Some [''zz'', ''zz'']\<rparr>) = Some [''zz'', ''zz'']"
    by simp
  have c: "distinct (map p_id (Patients store0))" by (simp add: store0_def ana_def luis_def bea_def)
  have d: "\<not> distinct [''p1'', ''p1'']" by simp
  have d': "\<not> distinct [''zz'', ''zz'']" by simp
  have o: "\<exists>p\<in>set (Patients store0). castPatientId orm0 ''p1'' = Some (p_id p) \<and>
       usuario_id p = Some ''userA''"
    by (simp add: store0_def orm0_def ana_def)
  have e: "\<forall>s\<in>set [''p1'', ''p1'']. castPatientId orm0 s \<noteq> None" by (simp add: orm0_def)
  have e': "\<not> (\<forall>s\<in>set [''zz'', ''zz'']. castPatientId orm0 s \<noteq> None)" by (simp add: orm0_def)
  have f: "fst (fst (create_request orm0 store0 7 ''userA'' (body0\<lparr>b_patient_ids := Some [''p1'']\<rparr>))) = 201"
    by (simp add: create_request_def Patient_find_owned_def save_ServiceRequest_def
        validate_ServiceRequest_def new_ServiceRequest_def orm0_def store0_def body0_def
        ana_def luis_def bea_def req1_def)
  from create_request_duplicate_ids [OF a c d, of orm0 7 "''userA''"] e
  have r: "create_request orm0 store0 7 ''userA'' (body0\<lparr>b_patient_ids := Some [''p1'', ''p1'']\<rparr>)
     = ((403, Failure (''Acceso denegado a uno o m'' @ a_acute @ ''s pacientes seleccionados'') None),
        store0)"
    by presburger
  from create_request_duplicate_ids [OF a' c d', of orm0 7 "''userA''"] e'
  have r': "create_request orm0 store0 7 ''userA'' (body0\<lparr>b_patient_ids := Some [''zz'', ''zz'']\<rparr>)
     = ((400, Failure ''Error al crear la solicitud de servicio'' (Some CastError)), store0)"
    by presburger
  from c d d' o f r r' show ?thesis by blast
qed

section \<open>The status filter of the list is not validated\<close>

text \<open>
  User A filters by \<open>completada\<close> on page 0: the offset is negative, the store
  refuses the query, and the answer is 500, not 200.
\<close>

theorem get_requests_estado_unvalidated_counterexample:
  "''completada'' \<noteq> [] \<and>
   get_requests (\<lambda>st r. r) store1 ''userA'' (Some ''completada'') (Some 0) None
     = (500, Failure ''Error al obtener las solicitudes'' (Some MongoServerError)) \<and>
   fst (get_requests (\<lambda>st r. r) store1 ''userA'' (Some ''completada'') (Some 0) None) \<noteq> 200"
  by (simp add: get_requests_def skip_limit_def js_Number_def round53_def js_minus_one_def)

text \<open>
  Claim C10, amended. The \<open>estado\<close> parameter of the list of service requests is
  not validated against the four statuses. For every non-empty value, enumerated
  or not, the answer is never a 400-class code. With the default pagination,
  and with any page \<open>P\<close> and limit \<open>L\<close> whose offset \<open>(P - 1) * L\<close> is not negative
  (\<open>P\<close>, \<open>L\<close> and the offset being below \<open>2 ^ 53\<close> in size, where JavaScript
  numbers are exact), the answer is 200, the total counts the caller's requests
  with exactly that status, and the items are the page of exactly those
  requests; a value outside the four statuses so gives a total of 0 and an empty
  page on a store whose statuses are enumerated. With a negative offset the
  answer is 500. An empty parameter is answered like an absent one: the total
  and the page are those of all the caller's requests.
\<close>

theorem get_requests_estado_unvalidated:
  assumes "e \<noteq> []" and "P = (case q_page of None \<Rightarrow> 1 | Some p \<Rightarrow> p)"
    and "L = (case q_limit of None \<Rightarrow> 10 | Some l \<Rightarrow> l)"
    and "\<bar>P\<bar> < 2 ^ 53" and "\<bar>L\<bar> < 2 ^ 53" and "\<bar>(P - 1) * L\<bar> < 2 ^ 53"
  shows "(fst (get_requests populate st uid (Some e) q_page' q_limit') = 200 \<or>
          fst (get_requests populate st uid (Some e) q_page' q_limit') = 500) \<and>
         get_requests populate st uid (Some e) None None
           = (200, Success \<lparr> total = length (filter (\<lambda>r. (user_id r = uid \<or> nurse_id r = Some uid) \<and>
                                                         estado r = e) (ServiceRequests st)),
                             page = Fin 1, limit = Fin 10,
                             items = map (populate st)
                               (take 10 (filter (\<lambda>r. (user_id r = uid \<or> nurse_id r = Some uid) \<and>
                                                      estado r = e) (ServiceRequests st))) \<rparr>) \<and>
         (0 \<le> (P - 1) * L \<longrightarrow>
            get_requests populate st uid (Some e) q_page q_limit
              = (200, Success \<lparr> total = length (filter (\<lambda>r. (user_id r = uid \<or> nurse_id r = Some uid) \<and>
                                                            estado r = e) (ServiceRequests st)),
                                page = Fin P, limit = Fin L,
                                items = map (populate st)
                                  (if L = 0
                                   then drop (nat ((P - 1) * L))
                                          (filter (\<lambda>r. (user_id r = uid \<or> nurse_id r = Some uid) \<and>
                                                       estado r = e) (ServiceRequests st))
                                   else take (nat \<bar>L\<bar>) (drop (nat ((P - 1) * L))
                                          (filter (\<lambda>r. (user_id r = uid \<or> nurse_id r = Some uid) \<and>
                                                       estado r = e) (ServiceRequests st)))) \<rparr>)) \<and>
         ((P - 1) * L < 0 \<longrightarrow>
            get_requests populate st uid (Some e) q_page q_limit
              = (500, Failure ''Error al obtener las solicitudes'' (Some MongoServerError))) \<and>
         (0 \<le> (P - 1) * L \<and> e \<notin> set estados \<and>
          (\<forall>r\<in>set (ServiceRequests st). estado r \<in> set estados) \<longrightarrow>
            get_requests populate st uid (Some e) q_page q_limit
              = (200, Success \<lparr> total = 0, page = Fin P, limit = Fin L, items = [] \<rparr>)) \<and>
         get_requests populate st uid (Some []) q_page' q_limit'
           = get_requests populate st uid None q_page' q_limit' \<and>
         (0 \<le> (P - 1) * L \<longrightarrow>
            get_requests populate st uid None q_page q_limit
              = (200, Success \<lparr> total = length (filter (\<lambda>r. user_id r = uid \<or> nurse_id r = Some uid)
                                                  (ServiceRequests st)),
                                page = Fin P, limit = Fin L,
                                items = map (populate st)
                                  (if L = 0
                                   then drop (nat ((P - 1) * L))
                                          (filter (\<lambda>r. user_id r = uid \<or> nurse_id r = Some uid)
                                             (ServiceRequests st))
                                   else take (nat \<bar>L\<bar>) (drop (nat ((P - 1) * L))
                                          (filter (\<lambda>r. user_id r = uid \<or> nurse_id r = Some uid)
                                             (ServiceRequests st)))) \<rparr>))"
proof -
  let ?E = "filter (\<lambda>r. (user_id r = uid \<or> nurse_id r = Some uid) \<and> estado r = e) (ServiceRequests st)"
  let ?A = "filter (\<lambda>r. user_id r = uid \<or> nurse_id r = Some uid) (ServiceRequests st)"
  note fe = request_filter_estado[OF assms(1), of uid "ServiceRequests st"]
  have fn: "filter (request_filter uid None) (ServiceRequests st) = ?A"
    by (rule request_filter_no_estado) simp
  note safe = get_requests_safe[OF assms(2,3,4,5,6), of populate st uid]
  have c1: "fst (get_requests populate st uid (Some e) q_page' q_limit') = 200 \<or>
          fst (get_requests populate st uid (Some e) q_page' q_limit') = 500"
    by (rule get_requests_codes)
  have ok: "skip_limit (Fin ((P - 1) * L)) (Fin L) xs
      = Inr (if L = 0 then drop (nat ((P - 1) * L)) xs else take (nat \<bar>L\<bar>) (drop (nat ((P - 1) * L)) xs))"
    if "0 \<le> (P - 1) * L" for xs :: "service_request list"
    using skip_limit_Fin[OF that, of L xs] assms(5,6) that by simp
  have c3: "get_requests populate st uid (Some e) q_page q_limit
              = (200, Success \<lparr> total = length ?E, page = Fin P, limit = Fin L,
                    items = map (populate st)
                      (if L = 0 then drop (nat ((P - 1) * L)) ?E
                       else take (nat \<bar>L\<bar>) (drop (nat ((P - 1) * L)) ?E)) \<rparr>)"
    if s: "0 \<le> (P - 1) * L"
    unfolding safe[of "Some e"] fe ok[OF s] by simp
  have c7: "get_requests populate st uid None q_page q_limit
              = (200, Success \<lparr> total = length ?A, page = Fin P, limit = Fin L,
                    items = map (populate st)
                      (if L = 0 then drop (nat ((P - 1) * L)) ?A
                       else take (nat \<bar>L\<bar>) (drop (nat ((P - 1) * L)) ?A)) \<rparr>)"
    if s: "0 \<le> (P - 1) * L"
    unfolding safe[of None] fn ok[OF s] by simp
  have c4: "get_requests populate st uid (Some e) q_page q_limit
              = (500, Failure ''Error al obtener las solicitudes'' (Some MongoServerError))"
    if "(P - 1) * L < 0"
    unfolding safe[of "Some e"] skip_limit_negative[OF that] by simp
  have c2: "get_requests populate st uid (Some e) None None
           = (200, Success \<lparr> total = length ?E, page = Fin 1, limit = Fin 10,
                             items = map (populate st) (take 10 ?E) \<rparr>)"
    by (simp add: get_requests_def Let_def skip_limit_def js_minus_one_def js_Number_safe fe)
  have c5: "get_requests populate st uid (Some e) q_page q_limit
              = (200, Success \<lparr> total = 0, page = Fin P, limit = Fin L, items = [] \<rparr>)"
    if s: "0 \<le> (P - 1) * L" and ne: "e \<notin> set estados"
      and inv: "\<forall>r\<in>set (ServiceRequests st). estado r \<in> set estados"
  proof -
    from inv ne have "?E = []" by (auto simp: filter_empty_conv)
    with c3[OF s] show ?thesis by simp
  qed
  have c6: "get_requests populate st uid (Some []) q_page' q_limit'
           = get_requests populate st uid None q_page' q_limit'"
  proof -
    have "request_filter uid (Some []) = request_filter uid None"
      by (rule ext) (simp add: request_filter_def)
    then show ?thesis by (simp add: get_requests_def)
  qed
  from c1 c2 c3 c4 c5 c6 c7 show ?thesis by blast
qed

text \<open>
  User A, with the default pagination: an unknown status gives an empty list,
  \<open>completada\<close> the completed request alone, the empty string both requests;
  \<open>completada\<close> on page 0 is answered 500.
\<close>

theorem get_requests_estado_unvalidated_witness:
  "''archivada'' \<notin> set estados \<and> ServiceRequests store1 = [req1, req_done] \<and>
   estado req1 \<in> set estados \<and> estado req_done \<in> set estados \<and>
   get_requests (\<lambda>st r. r) store1 ''userA'' (Some ''archivada'') None None
     = (200, Success \<lparr> total = 0, page = Fin 1, limit = Fin 10, items = [] \<rparr>) \<and>
   get_requests (\<lambda>st r. r) store1 ''userA'' (Some ''completada'') None None
     = (200, Success \<lparr> total = 1, page = Fin 1, limit = Fin 10, items = [req_done] \<rparr>) \<and>
   get_requests (\<lambda>st r. r) store1 ''userA'' (Some []) None None
     = (200, Success \<lparr> total = 2, page = Fin 1, limit = Fin 10, items = [req1, req_done] \<rparr>) \<and>
   get_requests (\<lambda>st r. r) store1 ''userA'' None None None
     = (200, Success \<lparr> total = 2, page = Fin 1, limit = Fin 10, items = [req1, req_done] \<rparr>) \<and>
   get_requests (\<lambda>st r. r) store1 ''userA'' (Some ''completada'') (Some 0) None
     = (500, Failure ''Error al obtener las solicitudes'' (Some MongoServerError))"
proof -
  have a: "''archivada'' \<noteq> []" by simp
  have a2: "''completada'' \<noteq> []" by simp
  have b: "(1::int) = (case None of None \<Rightarrow> 1 | Some p \<Rightarrow> p)" by simp
  have b0: "(0::int) = (case Some 0 of None \<Rightarrow> 1 | Some p \<Rightarrow> p)" by simp
  have c: "(10::int) = (case None of None \<Rightarrow> 10 | Some l \<Rightarrow> l)" by simp
  have s: "\<bar>1::int\<bar> < 2 ^ 53" "\<bar>10::int\<bar> < 2 ^ 53" "\<bar>((1::int) - 1) * 10\<bar> < 2 ^ 53"
    "\<bar>0::int\<bar> < 2 ^ 53" "\<bar>((0::int) - 1) * 10\<bar> < 2 ^ 53" by simp_all
  have d: "(0::int) \<le> (1 - 1) * 10" by simp
  have d0: "((0::int) - 1) * 10 < 0" by simp
  have e: "''archivada'' \<notin> set estados" by (simp add: estados_def)
  have f1: "ServiceRequests store1 = [req1, req_done]" by (simp add: store1_def)
  have f2: "estado req1 \<in> set estados" "estado req_done \<in> set estados"
    by (simp_all add: req_done_def req1_def estados_def)
  have f: "\<forall>r\<in>set (ServiceRequests store1). estado r \<in> set estados"
    using f2 by (simp add: f1)
  have t1: "filter (\<lambda>r. (user_id r = ''userA'' \<or> nurse_id r = Some ''userA'') \<and> estado r = ''completada'')
               (ServiceRequests store1) = [req_done]"
    by (simp add: store1_def req_done_def req1_def)
  have t2: "filter (\<lambda>r. user_id r = ''userA'' \<or> nurse_id r = Some ''userA'') (ServiceRequests store1)
              = [req1, req_done]"
    by (simp add: store1_def req_done_def req1_def)
  note w1 = get_requests_estado_unvalidated [OF a b c s(1) s(2) s(3), where populate = "\<lambda>st r. r"
      and st = store1 and uid = "''userA''" and q_page' = None and q_limit' = None]
  note w2 = get_requests_estado_unvalidated [OF a2 b c s(1) s(2) s(3), where populate = "\<lambda>st r. r"
      and st = store1 and uid = "''userA''" and q_page' = None and q_limit' = None]
  note w3 = get_requests_estado_unvalidated [OF a2 b0 c s(4) s(2) s(5), where populate = "\<lambda>st r. r"
      and st = store1 and uid = "''userA''" and q_page' = None and q_limit' = None]
  from w1 d e f have g1: "get_requests (\<lambda>st r. r) store1 ''userA'' (Some ''archivada'') None None
     = (200, Success \<lparr> total = 0, page = Fin 1, limit = Fin 10, items = [] \<rparr>)" by blast
  from w2 have g2: "get_requests (\<lambda>st r. r) store1 ''userA'' (Some ''completada'') None None
     = (200, Success \<lparr> total = 1, page = Fin 1, limit = Fin 10, items = [req_done] \<rparr>)"
    unfolding t1 by simp
  from w1 d have g4: "get_requests (\<lambda>st r. r) store1 ''userA'' None None None
     = (200, Success \<lparr> total = 2, page = Fin 1, limit = Fin 10, items = [req1, req_done] \<rparr>)"
    unfolding t2 by simp
  from w1 have "get_requests (\<lambda>st r. r) store1 ''userA'' (Some []) None None
     = get_requests (\<lambda>st r. r) store1 ''userA'' None None None" by blast
  with g4 have g3: "get_requests (\<lambda>st r. r) store1 ''userA'' (Some []) None None
     = (200, Success \<lparr> total = 2, page = Fin 1, limit = Fin 10, items = [req1, req_done] \<rparr>)"
    by simp
  from w3 d0 have g5: "get_requests (\<lambda>st r. r) store1 ''userA'' (Some ''completada'') (Some 0) None
     = (500, Failure ''Error al obtener las solicitudes'' (Some MongoServerError))" by blast
  from e f1 f2 g1 g2 g3 g4 g5 show ?thesis by blast
qed


end
